theory Spec2Isabelle
  imports Main "HOL-Library.Word"
begin

section \<open>Bytes, time and the key-value store\<close>

text \<open>
  Go's \<^verbatim>\<open>[]byte\<close> and \<^verbatim>\<open>string\<close> are both byte sequences; a \<^typ>\<open>char\<close> is one byte.
  Time is the Unix clock in seconds, which is the unit Badger stores expiry in.
\<close>

type_synonym bytes = string

text \<open>
  The Badger store (an external library): every key holds the value of its latest
  version together with that version's \<^verbatim>\<open>ExpiresAt\<close> (Unix seconds; 0 means the version
  never expires). \<^verbatim>\<open>NewEntry\<close> builds an entry with \<^verbatim>\<open>ExpiresAt = 0\<close>,
  \<^verbatim>\<open>WithTTL\<close> sets it to now + ttl, \<^verbatim>\<open>txn.Set(k, v)\<close> is
  \<^verbatim>\<open>txn.SetEntry(NewEntry(k, v))\<close>, and a read of a key whose latest version has
  a non-zero \<^verbatim>\<open>ExpiresAt\<close> that is not after the clock gives \<^verbatim>\<open>ErrKeyNotFound\<close>.
\<close>

record Entry =
  Key :: bytes
  Value :: bytes
  ExpiresAt :: nat

type_synonym badger = "bytes \<rightharpoonup> Entry"

definition NewEntry :: "bytes \<Rightarrow> bytes \<Rightarrow> Entry" where
  "NewEntry key val = \<lparr>Key = key, Value = val, ExpiresAt = 0\<rparr>"

definition WithTTL :: "nat \<Rightarrow> nat \<Rightarrow> Entry \<Rightarrow> Entry" where
  "WithTTL now dur e = e\<lparr>ExpiresAt := now + dur\<rparr>"

definition isExpired :: "nat \<Rightarrow> Entry \<Rightarrow> bool" where
  "isExpired now e = (if ExpiresAt e = 0 then False else ExpiresAt e \<le> now)"

datatype badger_error = ErrKeyNotFound | ErrOther

definition txn_Get :: "bool \<Rightarrow> nat \<Rightarrow> badger \<Rightarrow> bytes \<Rightarrow> badger_error + Entry" where
  "txn_Get fails now db key =
     (if fails then Inl ErrOther
      else case db key of
             None \<Rightarrow> Inl ErrKeyNotFound
           | Some e \<Rightarrow> if isExpired now e then Inl ErrKeyNotFound else Inr e)"

definition txn_SetEntry :: "badger \<Rightarrow> Entry \<Rightarrow> badger" where
  "txn_SetEntry db e = db(Key e \<mapsto> e)"

text \<open>
  What the storage engine may do wrong during one transaction: each flag says that the
  call of that name returns an error (for \<^verbatim>\<open>Get\<close>: an error other than
  \<^verbatim>\<open>ErrKeyNotFound\<close>, whatever the store holds).
\<close>

record db_faults =
  SetEntry_fails :: bool
  Commit_fails :: bool
  Get_fails :: bool
  ValueCopy_fails :: bool

definition no_faults :: db_faults where
  "no_faults = \<lparr>SetEntry_fails = False, Commit_fails = False, Get_fails = False,
     ValueCopy_fails = False\<rparr>"

section \<open>dbs/session.db.go\<close>

text \<open>
  The CBOR library is external: its two functions are parameters. The session store is
  written over any entry type, since the rendezvous and owner packages keep entries of
  their own in a store of the same name.
\<close>

record 'e cbor =
  Marshal :: "'e \<Rightarrow> bytes option"
  Unmarshal :: "bytes \<Rightarrow> 'e option"

datatype db_error =
    FailedToMarshal
  | FailedCreatingEntry
  | FailedSaving
  | DoesNotExist
  | FailedLocating
  | FailedReadingValue
  | FailedDecoding

text \<open>\<^verbatim>\<open>const MAX_SESSION_TIME time.Duration = 7 * 24 * time.Hour\<close>, in seconds.\<close>

definition MAX_SESSION_TIME :: nat where
  "MAX_SESSION_TIME = 7 * 24 * 3600"

record SessionEntry =
  Username :: string

text \<open>
  \<^verbatim>\<open>NewSessionEntry\<close>: \<open>randomEntryId\<close> is the text of the UUID drawn by
  \<^verbatim>\<open>uuid.NewRandom()\<close>, \<open>now\<close> the clock. The result is the returned pair and the
  store after the call.
\<close>

definition NewSessionEntry ::
  "'e cbor \<Rightarrow> db_faults \<Rightarrow> bytes \<Rightarrow> nat \<Rightarrow> badger \<Rightarrow> 'e \<Rightarrow> (db_error + bytes) \<times> badger" where
  "NewSessionEntry cb flt randomEntryId now db sessionInst =
     (case Marshal cb sessionInst of
        None \<Rightarrow> (Inl FailedToMarshal, db)
      | Some sessionBytes \<Rightarrow>
          (let sessionEntryId = ''session-'' @ randomEntryId;
               entry = WithTTL now MAX_SESSION_TIME (NewEntry sessionEntryId sessionBytes)
           in if SetEntry_fails flt then (Inl FailedCreatingEntry, db)
              else if Commit_fails flt then (Inl FailedSaving, db)
              else (Inr randomEntryId, txn_SetEntry db entry)))"

definition UpdateSessionEntry ::
  "'e cbor \<Rightarrow> db_faults \<Rightarrow> badger \<Rightarrow> bytes \<Rightarrow> 'e \<Rightarrow> db_error option \<times> badger" where
  "UpdateSessionEntry cb flt db entryId sessionInst =
     (let sessionEntryId = ''session-'' @ entryId
      in case Marshal cb sessionInst of
           None \<Rightarrow> (Some FailedToMarshal, db)
         | Some sessionInstBytes \<Rightarrow>
             if SetEntry_fails flt then (Some FailedCreatingEntry, db)
             else if Commit_fails flt then (Some FailedSaving, db)
             else (None, txn_SetEntry db (NewEntry sessionEntryId sessionInstBytes)))"

definition GetSessionEntry ::
  "'e cbor \<Rightarrow> db_faults \<Rightarrow> nat \<Rightarrow> badger \<Rightarrow> bytes \<Rightarrow> db_error + 'e" where
  "GetSessionEntry cb flt now db entryId =
     (let sessionEntryId = ''session-'' @ entryId
      in case txn_Get (Get_fails flt) now db sessionEntryId of
           Inl ErrKeyNotFound \<Rightarrow> Inl DoesNotExist
         | Inl ErrOther \<Rightarrow> Inl FailedLocating
         | Inr item \<Rightarrow>
             if ValueCopy_fails flt then Inl FailedReadingValue
             else (case Unmarshal cb (Value item) of
                     None \<Rightarrow> Inl FailedDecoding
                   | Some sessionEntryInst \<Rightarrow> Inr sessionEntryInst))"

text \<open>A codec for \<^typ>\<open>SessionEntry\<close> to run the store on: the bytes of the one field.\<close>

definition username_codec :: "SessionEntry cbor" where
  "username_codec = \<lparr>Marshal = (\<lambda>e. Some (Username e)),
     Unmarshal = (\<lambda>b. Some \<lparr>Username = b\<rparr>)\<rparr>"

section \<open>Protocol constants, responses and the conformance listener\<close>

text \<open>
  The package \<^verbatim>\<open>fdoshared\<close> is not among the sources. Its message-type constants
  carry their number in their name; the HTTP status constants are those of Go's
  \<^verbatim>\<open>net/http\<close>; its error codes and protocol tags are kept symbolic.
\<close>

type_synonym FdoCmd = nat

definition TO1_30_HELLO_RV :: FdoCmd where "TO1_30_HELLO_RV = 30"
definition TO1_31_HELLO_RV_ACK :: FdoCmd where "TO1_31_HELLO_RV_ACK = 31"
definition TO1_32_PROVE_TO_RV :: FdoCmd where "TO1_32_PROVE_TO_RV = 32"
definition TO1_33_RV_REDIRECT :: FdoCmd where "TO1_33_RV_REDIRECT = 33"
definition TO2_64_PROVE_DEVICE :: FdoCmd where "TO2_64_PROVE_DEVICE = 64"
definition TO2_67_OWNER_SERVICE_INFO_READY :: FdoCmd where "TO2_67_OWNER_SERVICE_INFO_READY = 67"
definition TO2_68_DEVICE_SERVICE_INFO :: FdoCmd where "TO2_68_DEVICE_SERVICE_INFO = 68"
definition TO2_69_OWNER_SERVICE_INFO :: FdoCmd where "TO2_69_OWNER_SERVICE_INFO = 69"

definition StatusOK :: nat where "StatusOK = 200"
definition StatusBadRequest :: nat where "StatusBadRequest = 400"
definition StatusUnauthorized :: nat where "StatusUnauthorized = 401"
definition StatusNotFound :: nat where "StatusNotFound = 404"
definition StatusInternalServerError :: nat where "StatusInternalServerError = 500"

datatype FdoErrorCode =
    RESOURCE_NOT_FOUND
  | MESSAGE_BODY_ERROR
  | INVALID_MESSAGE_ERROR
  | INTERNAL_SERVER_ERROR

datatype FdoToProtocol = To0 | To1 | To2

datatype FDOTestID =
    NULL_TEST
  | FIDO_LISTENER_POSITIVE
  | FIDO_LISTENER_DEVICE_30_BAD_ENCODING
  | FIDO_LISTENER_DEVICE_32_BAD_TO1D
  | FIDO_LISTENER_DEVICE_32_BAD_ENCODING
  | OTHER_TEST nat

text \<open>
  What a handler writes to its \<^verbatim>\<open>http.ResponseWriter\<close>. \<open>FdoError code cmd status\<close>
  is one call of \<^verbatim>\<open>RespondFDOError\<close> or \<^verbatim>\<open>Conf_RespondFDOError\<close> with that error
  code, that message type and that HTTP status (the message text is left out).
  \<open>Reply authorization messageType body\<close> is the final block of a handler: the
  three headers, \<^verbatim>\<open>WriteHeader(http.StatusOK)\<close> and \<^verbatim>\<open>Write(body)\<close>.
\<close>

datatype response =
    FdoError FdoErrorCode FdoCmd nat
  | Reply string FdoCmd bytes

fun http_status :: "response \<Rightarrow> nat" where
  "http_status (FdoError code cmd status) = status"
| "http_status (Reply authorization messageType body) = StatusOK"

fun is_Reply :: "response \<Rightarrow> bool" where
  "is_Reply (Reply authorization messageType body) = True"
| "is_Reply (FdoError code cmd status) = False"

text \<open>
  The outcome of one request: the responses written, in order, the session store after
  the request, and whether the handler ended in a run-time panic (a nil dereference or
  an index out of range), in which case it wrote nothing more.
\<close>

record result =
  responses :: "response list"
  sessions :: badger
  panicked :: bool

definition respond :: "response \<Rightarrow> badger \<Rightarrow> result" where
  "respond r db = \<lparr>responses = [r], sessions = db, panicked = False\<rparr>"

definition panic :: "badger \<Rightarrow> result" where
  "panic db = \<lparr>responses = [], sessions = db, panicked = True\<rparr>"

text \<open>
  A helper that is not among the sources and that answers the request itself when it
  refuses it (\<^verbatim>\<open>CheckHeaders\<close>, \<^verbatim>\<open>ExtractAuthorizationHeader\<close>,
  \<^verbatim>\<open>receiveAndDecrypt\<close>): either it passes with its value, or it refuses, and then
  the handler returns at once; \<open>Refused rs\<close> carries what the helper wrote.
\<close>

datatype 'a helper = Passed 'a | Refused "response list"

definition refused :: "response list \<Rightarrow> badger \<Rightarrow> result" where
  "refused rs db = \<lparr>responses = rs, sessions = db, panicked = False\<rparr>"

text \<open>
  The test-run record of the conformance listener (\<^verbatim>\<open>testcomListener.To1\<close>,
  \<^verbatim>\<open>testcomListener.To2\<close>) is not among the sources: it is any type \<open>'l\<close>, and its
  methods are parameters. A method that changes the record returns the new one.
\<close>

record 'l listener_ops =
  CheckCmdTestingIsCompleted :: "'l \<Rightarrow> FdoCmd \<Rightarrow> bool"
  CheckExpectedCmd :: "'l \<Rightarrow> FdoCmd \<Rightarrow> bool"
  GetLastTestID :: "'l \<Rightarrow> FDOTestID"
  CurrentTestIndex :: "'l \<Rightarrow> nat"
  PushFail :: "'l \<Rightarrow> 'l"
  PushSuccess :: "'l \<Rightarrow> 'l"
  GetNextTestID :: "'l \<Rightarrow> FDOTestID \<times> 'l"
  CompleteCmdAndSetNext :: "'l \<Rightarrow> FdoCmd \<Rightarrow> 'l"
  CompleteTestRun :: "'l \<Rightarrow> 'l"

text \<open>
  The block every handler runs once it knows the listener (\<^verbatim>\<open>// Test stuff\<close>): it
  records whether the message was the expected one, draws the test identifier of this
  step and saves the record. \<open>update_fails\<close> says that \<^verbatim>\<open>listenerDB.Update\<close> returns
  an error; the block then gives \<open>None\<close> and the handler answers with an error of
  its own. Otherwise it gives the test identifier and the listener as they stand.
\<close>

definition test_stuff ::
  "'l listener_ops \<Rightarrow> bool \<Rightarrow> 'l option \<Rightarrow> FdoCmd \<Rightarrow> (FDOTestID \<times> 'l option) option" where
  "test_stuff ops update_fails testcomListener currentCmd =
     (case testcomListener of
        None \<Rightarrow> Some (NULL_TEST, None)
      | Some l \<Rightarrow>
          if CheckCmdTestingIsCompleted ops l currentCmd then Some (NULL_TEST, Some l)
          else
            (let l1 = (if \<not> CheckExpectedCmd ops l currentCmd
                          \<and> GetLastTestID ops l \<noteq> FIDO_LISTENER_POSITIVE
                       then PushFail ops l
                       else if CurrentTestIndex ops l \<noteq> 0 then PushSuccess ops l
                       else l);
                 (fdoTestId, l2) = (if \<not> CheckCmdTestingIsCompleted ops l1 currentCmd
                                    then GetNextTestID ops l1
                                    else (NULL_TEST, l1))
             in if update_fails then None else Some (fdoTestId, Some l2)))"

section \<open>The session stores of the protocol packages\<close>

text \<open>
  Modelled from the spec: the session stores of the rendezvous and owner packages
  (\<^verbatim>\<open>h.session\<close> in the handlers) are not among the sources. The spec keeps a session
  entry under the key \<^verbatim>\<open>"session-" + token\<close>, bounded by a TTL, which is what
  \<^verbatim>\<open>dbs/session.db.go\<close> does; so the handlers' stores are that file's three functions
  at the entry type of their package.
\<close>

abbreviation rv_NewSessionEntry ::
  "'e cbor \<Rightarrow> db_faults \<Rightarrow> bytes \<Rightarrow> nat \<Rightarrow> badger \<Rightarrow> 'e \<Rightarrow> (db_error + bytes) \<times> badger" where
  "rv_NewSessionEntry \<equiv> NewSessionEntry"

abbreviation rv_GetSessionEntry ::
  "'e cbor \<Rightarrow> db_faults \<Rightarrow> nat \<Rightarrow> badger \<Rightarrow> bytes \<Rightarrow> db_error + 'e" where
  "rv_GetSessionEntry \<equiv> GetSessionEntry"

abbreviation to2_UpdateSessionEntry ::
  "'e cbor \<Rightarrow> db_faults \<Rightarrow> badger \<Rightarrow> bytes \<Rightarrow> 'e \<Rightarrow> db_error option \<times> badger" where
  "to2_UpdateSessionEntry \<equiv> UpdateSessionEntry"

section \<open>The rendezvous server: HelloRV30 and ProveToRV32\<close>

text \<open>
  The message and voucher types of \<^verbatim>\<open>fdoshared\<close> are not among the sources: each
  record has the fields the handlers read or write, and one more for the rest.
  \<^verbatim>\<open>OVDevCertChain\<close> is a pointer (the handler dereferences it), so it may be nil.
\<close>

record rv_SessionEntry =
  Protocol :: FdoToProtocol
  NonceTO1Proof :: bytes
  Guid :: bytes

record HelloRV30 =
  hello_Guid :: bytes
  EASigInfo :: bytes

record HelloRVAck31 =
  ack_NonceTO1Proof :: bytes
  EBSigInfo :: bytes

record CoseSignature =
  Payload :: bytes
  cose_rest :: bytes

record EATPayloadBase =
  EatNonce :: bytes
  eat_rest :: bytes

record OwnershipVoucher =
  OVHeaderTag :: bytes
  OVDevCertChain :: "bytes list option"
  ov_rest :: bytes

record To0d =
  to0d_OwnershipVoucher :: OwnershipVoucher
  to0d_rest :: bytes

record OVHeader =
  OVPublicKey_PkType :: nat
  ovh_rest :: bytes

record OwnerSign =
  os_To0d :: bytes
  os_To1d :: CoseSignature

text \<open>
  Modelled from the spec: the owner-sign store (\<^verbatim>\<open>h.ownersignDB\<close>) is not among the
  sources. The spec keeps one immutable voucher entry per device identifier; here it
  is a map from the identifier to the stored record, and \<^verbatim>\<open>Get\<close> fails where the
  map has no entry.
\<close>

type_synonym OwnerSignDB = "bytes \<rightharpoonup> OwnerSign"

text \<open>
  The functions of the CBOR and \<^verbatim>\<open>fdoshared\<close> libraries the two handlers call. A
  decoder gives \<open>None\<close> where \<^verbatim>\<open>cbor.Unmarshal\<close> returns an error;
  \<open>VerifyCoseSignatureWithCertificate\<close> is true where the Go function returns no
  error. The two fuzzing functions draw random bytes in Go; here they are any functions.
\<close>

record rv_ext =
  session_codec :: "rv_SessionEntry cbor"
  decode_HelloRV30 :: "bytes \<Rightarrow> HelloRV30 option"
  encode_HelloRVAck31 :: "HelloRVAck31 \<Rightarrow> bytes"
  decode_CoseSignature :: "bytes \<Rightarrow> CoseSignature option"
  decode_EATPayloadBase :: "bytes \<Rightarrow> EATPayloadBase option"
  decode_To0d :: "bytes \<Rightarrow> To0d option"
  GetOVHeader :: "OwnershipVoucher \<Rightarrow> OVHeader option"
  VerifyCoseSignatureWithCertificate :: "CoseSignature \<Rightarrow> nat \<Rightarrow> bytes list \<Rightarrow> bool"
  encode_CoseSignature :: "CoseSignature \<Rightarrow> bytes"
  Conf_RandomCborBufferFuzzing :: "bytes \<Rightarrow> bytes"
  Conf_Fuzz_CoseSignature :: "CoseSignature \<Rightarrow> CoseSignature"

text \<open>
  What one request and its surroundings bring: the verdicts of the helpers on the
  request, the body read from it, the listener found for a device identifier, whether
  the two saves of the listener fail, the faults of the session store, the nonce and
  the UUID drawn, and the clock.
\<close>

record 'l rv_env =
  CheckHeaders :: "unit helper"
  ExtractAuthorizationHeader :: "(bytes \<times> string) helper"
  ReadAll :: "bytes option"
  GetEntryByFdoGuid :: "bytes \<Rightarrow> 'l option"
  Update_fails :: bool
  Update2_fails :: bool
  session_faults :: db_faults
  NewFdoNonce :: bytes
  NewRandom :: bytes
  clock :: nat

definition Handle30HelloRV ::
  "rv_ext \<Rightarrow> 'l listener_ops \<Rightarrow> 'l rv_env \<Rightarrow> OwnerSignDB \<Rightarrow> badger \<Rightarrow> result" where
  "Handle30HelloRV ext ops env ownersignDB db =
     (case CheckHeaders env of
        Refused rs \<Rightarrow> refused rs db
      | Passed u \<Rightarrow>
     (case ReadAll env of
        None \<Rightarrow> respond (FdoError MESSAGE_BODY_ERROR TO1_30_HELLO_RV StatusBadRequest) db
      | Some bodyBytes \<Rightarrow>
     (case decode_HelloRV30 ext bodyBytes of
        None \<Rightarrow> respond (FdoError MESSAGE_BODY_ERROR TO1_30_HELLO_RV StatusBadRequest) db
      | Some helloRV30 \<Rightarrow>
     (case test_stuff ops (Update_fails env) (GetEntryByFdoGuid env (hello_Guid helloRV30))
             TO1_30_HELLO_RV of
        None \<Rightarrow> respond (FdoError INTERNAL_SERVER_ERROR TO1_30_HELLO_RV StatusBadRequest) db
      | Some (fdoTestId, testcomListener) \<Rightarrow>
     (case ownersignDB (hello_Guid helloRV30) of
        None \<Rightarrow> respond (FdoError RESOURCE_NOT_FOUND TO1_30_HELLO_RV StatusBadRequest) db
      | Some ownerSign \<Rightarrow>
     (let nonceTO1Proof = NewFdoNonce env;
          newSessionInst = \<lparr>Protocol = To1, NonceTO1Proof = nonceTO1Proof,
                             Guid = hello_Guid helloRV30\<rparr>
      in case rv_NewSessionEntry (session_codec ext) (session_faults env) (NewRandom env)
                (clock env) db newSessionInst of
           (Inl err, db') \<Rightarrow>
             respond (FdoError INTERNAL_SERVER_ERROR TO1_30_HELLO_RV StatusInternalServerError) db'
         | (Inr sessionId, db') \<Rightarrow>
     (let helloRVAck31 = \<lparr>ack_NonceTO1Proof = nonceTO1Proof, EBSigInfo = EASigInfo helloRV30\<rparr>;
          helloRVAckBytes = encode_HelloRVAck31 ext helloRVAck31;
          helloRVAckBytes = (if fdoTestId = FIDO_LISTENER_DEVICE_30_BAD_ENCODING
                             then Conf_RandomCborBufferFuzzing ext helloRVAckBytes
                             else helloRVAckBytes);
          reply = respond (Reply (''Bearer '' @ sessionId) TO1_31_HELLO_RV_ACK helloRVAckBytes) db'
      in if fdoTestId = FIDO_LISTENER_POSITIVE
         then (case testcomListener of
                 None \<Rightarrow> panic db'
               | Some l \<Rightarrow>
                   if CheckExpectedCmd ops l TO1_30_HELLO_RV
                   then (if Update2_fails env
                         then respond (FdoError INTERNAL_SERVER_ERROR TO1_30_HELLO_RV
                                         StatusBadRequest) db'
                         else reply)
                   else reply)
         else reply)))))))"

definition Handle32ProveToRV ::
  "rv_ext \<Rightarrow> 'l listener_ops \<Rightarrow> 'l rv_env \<Rightarrow> OwnerSignDB \<Rightarrow> badger \<Rightarrow> result" where
  "Handle32ProveToRV ext ops env ownersignDB db =
     (case CheckHeaders env of
        Refused rs \<Rightarrow> refused rs db
      | Passed u \<Rightarrow>
     (case ExtractAuthorizationHeader env of
        Refused rs \<Rightarrow> refused rs db
      | Passed (sessionId, authorizationHeader) \<Rightarrow>
     (case rv_GetSessionEntry (session_codec ext) (session_faults env) (clock env) db sessionId of
        Inl err \<Rightarrow> respond (FdoError MESSAGE_BODY_ERROR TO1_32_PROVE_TO_RV StatusUnauthorized) db
      | Inr session \<Rightarrow>
     (if Protocol session \<noteq> To1
      then respond (FdoError MESSAGE_BODY_ERROR TO1_32_PROVE_TO_RV StatusUnauthorized) db
      else
     (case ReadAll env of
        None \<Rightarrow> respond (FdoError MESSAGE_BODY_ERROR TO1_32_PROVE_TO_RV StatusBadRequest) db
      | Some bodyBytes \<Rightarrow>
     (case test_stuff ops (Update_fails env) (GetEntryByFdoGuid env (Guid session))
             TO1_32_PROVE_TO_RV of
        None \<Rightarrow> respond (FdoError INTERNAL_SERVER_ERROR TO1_32_PROVE_TO_RV StatusBadRequest) db
      | Some (fdoTestId, testcomListener) \<Rightarrow>
     (case decode_CoseSignature ext bodyBytes of
        None \<Rightarrow> respond (FdoError MESSAGE_BODY_ERROR TO1_32_PROVE_TO_RV StatusBadRequest) db
      | Some proveToRV32 \<Rightarrow>
     (case decode_EATPayloadBase ext (Payload proveToRV32) of
        None \<Rightarrow> respond (FdoError MESSAGE_BODY_ERROR TO1_32_PROVE_TO_RV StatusBadRequest) db
      | Some pb \<Rightarrow>
     (if EatNonce pb \<noteq> NonceTO1Proof session
      then respond (FdoError INVALID_MESSAGE_ERROR TO1_32_PROVE_TO_RV StatusBadRequest) db
      else
     (case ownersignDB (Guid session) of
        None \<Rightarrow>
          respond (FdoError INVALID_MESSAGE_ERROR TO1_32_PROVE_TO_RV StatusInternalServerError) db
      | Some savedOwnerSign \<Rightarrow>
     (case decode_To0d ext (os_To0d savedOwnerSign) of
        None \<Rightarrow> respond (FdoError MESSAGE_BODY_ERROR TO1_32_PROVE_TO_RV StatusBadRequest) db
      | Some to0d \<Rightarrow>
     (case GetOVHeader ext (to0d_OwnershipVoucher to0d) of
        None \<Rightarrow> respond (FdoError INVALID_MESSAGE_ERROR TO1_32_PROVE_TO_RV StatusBadRequest) db
      | Some voucherHeader \<Rightarrow>
     (case OVDevCertChain (to0d_OwnershipVoucher to0d) of
        None \<Rightarrow> panic db
      | Some chain \<Rightarrow>
     (if \<not> VerifyCoseSignatureWithCertificate ext proveToRV32
              (OVPublicKey_PkType voucherHeader) chain
      then respond (FdoError INVALID_MESSAGE_ERROR TO1_32_PROVE_TO_RV StatusBadRequest) db
      else
     (let to1d = os_To1d savedOwnerSign;
          to1d = (if fdoTestId = FIDO_LISTENER_DEVICE_32_BAD_TO1D
                  then Conf_Fuzz_CoseSignature ext to1d else to1d);
          rvRedirectBytes = encode_CoseSignature ext to1d;
          rvRedirectBytes = (if fdoTestId = FIDO_LISTENER_DEVICE_32_BAD_ENCODING
                             then Conf_RandomCborBufferFuzzing ext rvRedirectBytes
                             else rvRedirectBytes);
          reply = respond (Reply authorizationHeader TO1_33_RV_REDIRECT rvRedirectBytes) db
      in if fdoTestId = FIDO_LISTENER_POSITIVE
         then (case testcomListener of
                 None \<Rightarrow> panic db
               | Some l \<Rightarrow>
                   if Update2_fails env
                   then respond (FdoError INTERNAL_SERVER_ERROR TO1_32_PROVE_TO_RV
                                   StatusInternalServerError) db
                   else reply)
         else reply)))))))))))))))"

section \<open>The owner server: DeviceServiceInfo68\<close>

text \<open>\<^verbatim>\<open>const MTU_BYTES = 1500\<close>\<close>

definition MTU_BYTES :: nat where
  "MTU_BYTES = 1500"

text \<open>
  The session entry of the owner package is not among the sources: the record has the
  fields the handler reads or writes. The handler converts
  \<^verbatim>\<open>OwnerSIMsSendCounter\<close> with \<^verbatim>\<open>int(...)\<close>, so it is a machine integer of some
  width; the record leaves its type open and the handler takes it as an unsigned word
  of any width \<open>'w\<close>, whose \<open>+ 1\<close> wraps around.
\<close>

type_synonym ServiceInfoKV = "string \<times> bytes"

record 'c to2_SessionEntry =
  PrevCMD :: FdoCmd
  SessionKey :: bytes
  CipherSuiteName :: nat
  DeviceSIMs :: "ServiceInfoKV list"
  OwnerSIMs :: "ServiceInfoKV list"
  OwnerSIMsSendCounter :: 'c
  OwnerSIMsFinishedSending :: bool

record DeviceServiceInfo68 =
  dev_IsMoreServiceInfo :: bool
  dev_ServiceInfo :: "ServiceInfoKV option"

record OwnerServiceInfo69 =
  IsMoreServiceInfo :: bool
  IsDone :: bool
  ServiceInfo :: "ServiceInfoKV option"

record 'c to2_ext =
  to2_session_codec :: "'c to2_SessionEntry cbor"
  decode_DeviceServiceInfo68 :: "bytes \<Rightarrow> DeviceServiceInfo68 option"
  encode_OwnerServiceInfo69 :: "OwnerServiceInfo69 \<Rightarrow> bytes"
  AddEncryptionWrapping :: "bytes \<Rightarrow> bytes \<Rightarrow> nat \<Rightarrow> bytes option"

text \<open>
  \<^verbatim>\<open>receiveAndDecrypt\<close> gives the session, the session identifier, the
  authorization header, the decrypted body and the listener.
\<close>

record ('c, 'l) to2_env =
  to2_CheckHeaders :: "unit helper"
  receiveAndDecrypt ::
    "('c to2_SessionEntry \<times> bytes \<times> string \<times> bytes \<times> 'l option) helper"
  to2_Update_fails :: bool
  to2_Update2_fails :: bool
  to2_session_faults :: db_faults

text \<open>
  The main body of the handler (between its two \<^verbatim>\<open>MAIN BODY\<close> marks): the answer
  and the session as the body leaves it, or \<open>None\<close> where Go panics: on the nil
  \<^verbatim>\<open>ServiceInfo\<close> of a message that announces more, and on
  \<^verbatim>\<open>session.OwnerSIMs[session.OwnerSIMsSendCounter]\<close> out of range.
\<close>

definition main_body ::
  "('w::len) word to2_SessionEntry \<Rightarrow> DeviceServiceInfo68 \<Rightarrow>
     (OwnerServiceInfo69 \<times> 'w word to2_SessionEntry) option" where
  "main_body session deviceServiceInfo =
     (if dev_IsMoreServiceInfo deviceServiceInfo
      then (case dev_ServiceInfo deviceServiceInfo of
              None \<Rightarrow> None
            | Some serviceInfo \<Rightarrow>
                Some (\<lparr>IsMoreServiceInfo = False, IsDone = False, ServiceInfo = None\<rparr>,
                      session\<lparr>DeviceSIMs := DeviceSIMs session @ [serviceInfo]\<rparr>))
      else
        (let finished = (length (OwnerSIMs session) \<le> unat (OwnerSIMsSendCounter session + 1));
             session1 = (if finished then session\<lparr>OwnerSIMsFinishedSending := True\<rparr>
                         else session)
         in if unat (OwnerSIMsSendCounter session) < length (OwnerSIMs session)
            then Some (\<lparr>IsMoreServiceInfo = (\<not> finished), IsDone = finished,
                         ServiceInfo = Some (OwnerSIMs session ! unat (OwnerSIMsSendCounter session))\<rparr>,
                       session1\<lparr>OwnerSIMsSendCounter := OwnerSIMsSendCounter session + 1\<rparr>)
            else None))"

definition DeviceServiceInfo68 ::
  "('w::len) word to2_ext \<Rightarrow> 'l listener_ops \<Rightarrow> ('w word, 'l) to2_env \<Rightarrow> badger \<Rightarrow> result" where
  "DeviceServiceInfo68 ext ops env db =
     (let currentCmd = TO2_68_DEVICE_SERVICE_INFO in
      case to2_CheckHeaders env of
        Refused rs \<Rightarrow> refused rs db
      | Passed u \<Rightarrow>
     (case receiveAndDecrypt env of
        Refused rs \<Rightarrow> refused rs db
      | Passed (session, sessionId, authorizationHeader, bodyBytes, testcomListener) \<Rightarrow>
     (case test_stuff ops (to2_Update_fails env) testcomListener currentCmd of
        None \<Rightarrow> respond (FdoError INTERNAL_SERVER_ERROR currentCmd StatusBadRequest) db
      | Some (fdoTestId, testcomListener) \<Rightarrow>
     (if PrevCMD session \<noteq> TO2_67_OWNER_SERVICE_INFO_READY
           \<and> PrevCMD session \<noteq> TO2_69_OWNER_SERVICE_INFO
      then respond (FdoError MESSAGE_BODY_ERROR currentCmd StatusUnauthorized) db
      else
     (case decode_DeviceServiceInfo68 ext bodyBytes of
        None \<Rightarrow> respond (FdoError MESSAGE_BODY_ERROR currentCmd StatusBadRequest) db
      | Some deviceServiceInfo \<Rightarrow>
     (case main_body session deviceServiceInfo of
        None \<Rightarrow> panic db
      | Some (ownerServiceInfo, session) \<Rightarrow>
     (let ownerServiceInfoBytes = encode_OwnerServiceInfo69 ext ownerServiceInfo
      in case AddEncryptionWrapping ext ownerServiceInfoBytes (SessionKey session)
                (CipherSuiteName session) of
           None \<Rightarrow>
             respond (FdoError INTERNAL_SERVER_ERROR TO2_68_DEVICE_SERVICE_INFO
                        StatusInternalServerError) db
         | Some ownerServiceInfoEncBytes \<Rightarrow>
     (let session = session\<lparr>PrevCMD := TO2_69_OWNER_SERVICE_INFO\<rparr>
      in case to2_UpdateSessionEntry (to2_session_codec ext) (to2_session_faults env) db
                sessionId session of
           (Some err, db') \<Rightarrow>
             respond (FdoError INTERNAL_SERVER_ERROR TO2_68_DEVICE_SERVICE_INFO
                        StatusInternalServerError) db'
         | (None, db') \<Rightarrow>
     (let reply = respond (Reply authorizationHeader TO2_69_OWNER_SERVICE_INFO
                             ownerServiceInfoEncBytes) db'
      in if fdoTestId = FIDO_LISTENER_POSITIVE
         then (case testcomListener of
                 None \<Rightarrow> panic db'
               | Some l \<Rightarrow>
                   (let l = CompleteCmdAndSetNext ops l currentCmd
                    in if CheckExpectedCmd ops l currentCmd
                       then (if to2_Update2_fails env
                             then respond (FdoError INTERNAL_SERVER_ERROR currentCmd
                                             StatusBadRequest) db'
                             else reply)
                       else reply))
         else reply)))))))))"

text \<open>
  The exchange as the session sees it: one step is the handler's check of the previous
  message type, its main body and the previous message type it saves; the next
  request finds the session the last one saved. \<open>exchange\<close> gives the answers to a
  run of device messages, or \<open>None\<close> as soon as one request is rejected or panics.
\<close>

definition session_step ::
  "('w::len) word to2_SessionEntry \<Rightarrow> DeviceServiceInfo68 \<Rightarrow>
     (OwnerServiceInfo69 \<times> 'w word to2_SessionEntry) option" where
  "session_step session deviceServiceInfo =
     (if PrevCMD session \<noteq> TO2_67_OWNER_SERVICE_INFO_READY
           \<and> PrevCMD session \<noteq> TO2_69_OWNER_SERVICE_INFO
      then None
      else case main_body session deviceServiceInfo of
             None \<Rightarrow> None
           | Some (ownerServiceInfo, session') \<Rightarrow>
               Some (ownerServiceInfo, session'\<lparr>PrevCMD := TO2_69_OWNER_SERVICE_INFO\<rparr>))"

fun exchange ::
  "('w::len) word to2_SessionEntry \<Rightarrow> DeviceServiceInfo68 list \<Rightarrow>
     OwnerServiceInfo69 list option" where
  "exchange session [] = Some []"
| "exchange session (m # ms) =
     (case session_step session m of
        None \<Rightarrow> None
      | Some (ownerServiceInfo, session') \<Rightarrow>
          (case exchange session' ms of
             None \<Rightarrow> None
           | Some rest \<Rightarrow> Some (ownerServiceInfo # rest)))"

text \<open>The pages an exchange delivered: the service info of every answer that carries one.\<close>

definition pages :: "OwnerServiceInfo69 list \<Rightarrow> ServiceInfoKV list" where
  "pages answers = concat (map (\<lambda>a. case ServiceInfo a of None \<Rightarrow> [] | Some p \<Rightarrow> [p]) answers)"

section \<open>testexec/do.to2.66.execute.go\<close>

text \<open>
  The device-side requestor (\<^verbatim>\<open>to2.To2Requestor\<close>) and the voucher types are not among
  the sources. The requestor is any type \<open>'q\<close>; each of its methods sends one
  request and may change it, so a method returns its result and the requestor after
  the call. \<^verbatim>\<open>NumOVEntries\<close> is the number \<^verbatim>\<open>int(...)\<close> reads; \<^verbatim>\<open>OVEntryNum\<close>
  is compared with \<^verbatim>\<open>uint8(i)\<close>, so it is a byte.
\<close>

type_synonym go_error = string

record ProveOVHdrPayload61 =
  OVHeader_bytes :: bytes
  NumOVEntries :: nat
  HMac :: bytes

record OVNextEntry =
  OVEntryNum :: "8 word"
  OVEntry :: bytes

record ('v, 'q) requestor_ops =
  GetVoucher :: "go_error + 'v"
  NewTo2Requestor :: "'v \<Rightarrow> 'q"
  HelloDevice60 :: "'q \<Rightarrow> (go_error + ProveOVHdrPayload61) \<times> 'q"
  GetOVNextEntry62 :: "'q \<Rightarrow> 8 word \<Rightarrow> (go_error + OVNextEntry) \<times> 'q"
  VerifyEntries :: "bytes list \<Rightarrow> bytes \<Rightarrow> bytes \<Rightarrow> go_error option"
  GetOVEntryPubKey :: "bytes \<Rightarrow> bytes"
  ProveOVHdr61PubKey :: "'q \<Rightarrow> bytes"
  Equals :: "bytes \<Rightarrow> bytes \<Rightarrow> go_error option"
  ProveDevice64 :: "'q \<Rightarrow> go_error option \<times> 'q"

text \<open>
  What the function did, in order: every request it sent and every check it made,
  each with its arguments and its result.
\<close>

datatype event =
    Sent60 "go_error + ProveOVHdrPayload61"
  | Sent62 "8 word" "go_error + OVNextEntry"
  | Verified "bytes list" bytes bytes "go_error option"
  | Compared bytes bytes "go_error option"
  | Sent64 "go_error option"

text \<open>
  What \<^verbatim>\<open>preExecuteTo2_66\<close> returns: \<open>Failed err\<close> is \<^verbatim>\<open>(nil, err)\<close> with an error,
  \<open>NilNil\<close> is \<^verbatim>\<open>(nil, nil)\<close>, \<open>Ready q\<close> is the requestor with no error, and
  \<open>Panicked\<close> is the index out of range of \<^verbatim>\<open>ovEntries[len(ovEntries)-1]\<close> on no
  entries.
\<close>

datatype 'q pre_result = Failed go_error | NilNil | Ready 'q | Panicked

text \<open>
  The loop \<^verbatim>\<open>for i := 0; i < int(NumOVEntries); i++\<close>. On an entry whose number is not
  the index asked for, the Go code returns \<^verbatim>\<open>nil, err\<close> where \<^verbatim>\<open>err\<close> is the nil error
  of the request that has just succeeded.
\<close>

function ov_loop ::
  "('v, 'q) requestor_ops \<Rightarrow> nat \<Rightarrow> nat \<Rightarrow> 'q \<Rightarrow> bytes list \<Rightarrow> event list \<Rightarrow>
     ('q pre_result + 'q \<times> bytes list) \<times> event list" where
  "ov_loop ops n i q ovEntries tr =
     (if i < n
      then (case GetOVNextEntry62 ops q (of_nat i) of
              (Inl err, q') \<Rightarrow> (Inl (Failed err), tr @ [Sent62 (of_nat i) (Inl err)])
            | (Inr nextEntry, q') \<Rightarrow>
                if OVEntryNum nextEntry \<noteq> of_nat i
                then (Inl NilNil, tr @ [Sent62 (of_nat i) (Inr nextEntry)])
                else ov_loop ops n (Suc i) q' (ovEntries @ [OVEntry nextEntry])
                       (tr @ [Sent62 (of_nat i) (Inr nextEntry)]))
      else (Inr (q, ovEntries), tr))"
  by pat_completeness auto
termination
  by (relation "measure (\<lambda>(ops, n, i, q, ovEntries, tr). n - i)") auto

definition preExecuteTo2_66 :: "('v, 'q) requestor_ops \<Rightarrow> 'q pre_result \<times> event list" where
  "preExecuteTo2_66 ops =
     (case GetVoucher ops of
        Inl err \<Rightarrow> (Failed err, [])
      | Inr testCred \<Rightarrow>
     (let to2requestor = NewTo2Requestor ops testCred
      in case HelloDevice60 ops to2requestor of
           (Inl err, q) \<Rightarrow> (Failed err, [Sent60 (Inl err)])
         | (Inr proveOVHdrPayload61, q) \<Rightarrow>
     (case ov_loop ops (NumOVEntries proveOVHdrPayload61) 0 q [] [Sent60 (Inr proveOVHdrPayload61)] of
        (Inl stopped, tr) \<Rightarrow> (stopped, tr)
      | (Inr (q, ovEntries), tr) \<Rightarrow>
     (let verified = VerifyEntries ops ovEntries (OVHeader_bytes proveOVHdrPayload61)
                       (HMac proveOVHdrPayload61);
          tr = tr @ [Verified ovEntries (OVHeader_bytes proveOVHdrPayload61)
                       (HMac proveOVHdrPayload61) verified]
      in case verified of
           Some err \<Rightarrow> (Failed err, tr)
         | None \<Rightarrow>
     (if ovEntries = [] then (Panicked, tr)
      else
     (let lastOvEntry = last ovEntries;
          loePubKey = GetOVEntryPubKey ops lastOvEntry;
          compared = Equals ops (ProveOVHdr61PubKey ops q) loePubKey;
          tr = tr @ [Compared (ProveOVHdr61PubKey ops q) loePubKey compared]
      in case compared of
           Some err \<Rightarrow> (Failed err, tr)
         | None \<Rightarrow>
     (case ProveDevice64 ops q of
        (Some err, q') \<Rightarrow> (Failed err, tr @ [Sent64 (Some err)])
      | (None, q') \<Rightarrow> (Ready q', tr @ [Sent64 None]))))))))"

section \<open>A small instance to run the handlers on\<close>

text \<open>
  Stand-ins for the external functions, so that the handlers can be run on concrete
  requests: a session entry is encoded as one character for the protocol, the 16 bytes
  of the nonce and the device identifier; a signature is taken as good when the bytes
  after its 16-byte payload are \<open>good-signature\<close>; fuzzing reverses the bytes.
\<close>

definition force_test :: "'l listener_ops \<Rightarrow> FDOTestID \<Rightarrow> 'l listener_ops" where
  "force_test ops tid = ops\<lparr>GetNextTestID := (\<lambda>l. (tid, snd (GetNextTestID ops l)))\<rparr>"

text \<open>
  The verification material of \<open>Handle32ProveToRV\<close>: the stored voucher of the
  session's device, resolved by its identifier, decoded, with its header's public-key
  type and its device certificate chain; \<open>None\<close> where any of these is missing.
\<close>

definition voucher_chain ::
  "rv_ext \<Rightarrow> OwnerSignDB \<Rightarrow> rv_SessionEntry \<Rightarrow> (nat \<times> bytes list) option" where
  "voucher_chain ext ownersignDB session =
     (case ownersignDB (Guid session) of
        None \<Rightarrow> None
      | Some savedOwnerSign \<Rightarrow>
          (case decode_To0d ext (os_To0d savedOwnerSign) of
             None \<Rightarrow> None
           | Some to0d \<Rightarrow>
               (case GetOVHeader ext (to0d_OwnershipVoucher to0d) of
                  None \<Rightarrow> None
                | Some voucherHeader \<Rightarrow>
                    (case OVDevCertChain (to0d_OwnershipVoucher to0d) of
                       None \<Rightarrow> None
                     | Some chain \<Rightarrow> Some (OVPublicKey_PkType voucherHeader, chain)))))"

text \<open>Whether the block \<open>test_stuff\<close> draws a test identifier for this step.\<close>

definition draws_test :: "'l listener_ops \<Rightarrow> 'l option \<Rightarrow> FdoCmd \<Rightarrow> bool" where
  "draws_test ops testcomListener currentCmd =
     (case testcomListener of
        None \<Rightarrow> False
      | Some l \<Rightarrow>
          if CheckCmdTestingIsCompleted ops l currentCmd then False
          else
            (let l1 = (if \<not> CheckExpectedCmd ops l currentCmd
                          \<and> GetLastTestID ops l \<noteq> FIDO_LISTENER_POSITIVE
                       then PushFail ops l
                       else if CurrentTestIndex ops l \<noteq> 0 then PushSuccess ops l
                       else l)
             in \<not> CheckCmdTestingIsCompleted ops l1 currentCmd))"

definition demo_ops :: "unit listener_ops" where
  "demo_ops = \<lparr>CheckCmdTestingIsCompleted = (\<lambda>l cmd. False),
     CheckExpectedCmd = (\<lambda>l cmd. True),
     GetLastTestID = (\<lambda>l. NULL_TEST),
     CurrentTestIndex = (\<lambda>l. 0),
     PushFail = (\<lambda>l. l),
     PushSuccess = (\<lambda>l. l),
     GetNextTestID = (\<lambda>l. (NULL_TEST, l)),
     CompleteCmdAndSetNext = (\<lambda>l cmd. l),
     CompleteTestRun = (\<lambda>l. l)\<rparr>"

definition demo_session_codec :: "rv_SessionEntry cbor" where
  "demo_session_codec =
     \<lparr>Marshal = (\<lambda>s. Some ((case Protocol s of To0 \<Rightarrow> CHR ''0'' | To1 \<Rightarrow> CHR ''1''
                                | To2 \<Rightarrow> CHR ''2'') # NonceTO1Proof s @ Guid s)),
      Unmarshal = (\<lambda>b. case b of
                     [] \<Rightarrow> None
                   | c # r \<Rightarrow> Some \<lparr>Protocol = (if c = CHR ''1'' then To1
                                                 else if c = CHR ''2'' then To2 else To0),
                                     NonceTO1Proof = take 16 r, Guid = drop 16 r\<rparr>)\<rparr>"

definition demo_ext :: rv_ext where
  "demo_ext =
     \<lparr>session_codec = demo_session_codec,
      decode_HelloRV30 = (\<lambda>b. if length b < 16 then None
                                else Some \<lparr>hello_Guid = take 16 b, EASigInfo = drop 16 b\<rparr>),
      encode_HelloRVAck31 = (\<lambda>a. ack_NonceTO1Proof a @ EBSigInfo a),
      decode_CoseSignature = (\<lambda>b. if length b < 16 then None
                                    else Some \<lparr>Payload = take 16 b, cose_rest = drop 16 b\<rparr>),
      decode_EATPayloadBase = (\<lambda>b. Some \<lparr>EatNonce = b, eat_rest = []\<rparr>),
      decode_To0d = (\<lambda>b. Some \<lparr>to0d_OwnershipVoucher =
                                   \<lparr>OVHeaderTag = b, OVDevCertChain = Some [''device-cert''],
                                    ov_rest = []\<rparr>,
                                 to0d_rest = []\<rparr>),
      GetOVHeader = (\<lambda>ov. Some \<lparr>OVPublicKey_PkType = 10, ovh_rest = OVHeaderTag ov\<rparr>),
      VerifyCoseSignatureWithCertificate = (\<lambda>sig pkType chain. cose_rest sig = ''good-signature''),
      encode_CoseSignature = (\<lambda>sig. Payload sig @ cose_rest sig),
      Conf_RandomCborBufferFuzzing = rev,
      Conf_Fuzz_CoseSignature = (\<lambda>sig. sig\<lparr>cose_rest := ''fuzzed''\<rparr>)\<rparr>"

definition demo_guid :: bytes where
  "demo_guid = ''device-guid-0001''"

definition demo_nonce :: bytes where
  "demo_nonce = ''nonce-0123456789''"

definition demo_env :: "unit rv_env" where
  "demo_env =
     \<lparr>CheckHeaders = Passed (),
      ExtractAuthorizationHeader = Passed (''uuid-1'', ''Bearer uuid-1''),
      ReadAll = Some (demo_guid @ ''siginfo''),
      GetEntryByFdoGuid = (\<lambda>guid. None),
      Update_fails = False,
      Update2_fails = False,
      session_faults = no_faults,
      NewFdoNonce = demo_nonce,
      NewRandom = ''uuid-1'',
      clock = 1000\<rparr>"

definition demo_ownersignDB :: OwnerSignDB where
  "demo_ownersignDB =
     [demo_guid \<mapsto> \<lparr>os_To0d = ''to0d'',
                       os_To1d = \<lparr>Payload = ''redirect'', cose_rest = ''owner-signature''\<rparr>\<rparr>]"

text \<open>
  Three requests for \<open>Handle32ProveToRV\<close>: one that signs the nonce issued, one that
  signs another nonce, and one that signs the right nonce with a bad signature.
\<close>

definition demo_prove_env :: "unit rv_env" where
  "demo_prove_env = demo_env\<lparr>ReadAll := Some (demo_nonce @ ''good-signature'')\<rparr>"

definition demo_wrong_nonce_env :: "unit rv_env" where
  "demo_wrong_nonce_env = demo_env\<lparr>ReadAll := Some (''wrong-nonce-0000'' @ ''good-signature'')\<rparr>"

definition demo_bad_signature_env :: "unit rv_env" where
  "demo_bad_signature_env = demo_env\<lparr>ReadAll := Some (demo_nonce @ ''forged-signature'')\<rparr>"

definition demo_session :: rv_SessionEntry where
  "demo_session = \<lparr>Protocol = To1, NonceTO1Proof = demo_nonce, Guid = demo_guid\<rparr>"

text \<open>The session store once \<open>Handle30HelloRV\<close> has served \<open>demo_env\<close>.\<close>

definition demo_db :: badger where
  "demo_db =
     [''session-uuid-1'' \<mapsto>
        \<lparr>Key = ''session-uuid-1'', Value = CHR ''1'' # demo_nonce @ demo_guid,
         ExpiresAt = 1000 + MAX_SESSION_TIME\<rparr>]"

text \<open>
  Stand-ins for the owner handler, at a 16-bit counter. The handler only encodes its
  session, so the codec decodes nothing. A body is \<open>more\<close> (a device message that
  announces more and carries one item) or \<open>last\<close> (one that does not).
\<close>

definition demo_to2_ext :: "16 word to2_ext" where
  "demo_to2_ext =
     \<lparr>to2_session_codec =
        \<lparr>Marshal = (\<lambda>s. Some (SessionKey s @ concat (map snd (OwnerSIMs s)))),
         Unmarshal = (\<lambda>b. None)\<rparr>,
      decode_DeviceServiceInfo68 =
        (\<lambda>b. if b = ''more''
              then Some \<lparr>dev_IsMoreServiceInfo = True, dev_ServiceInfo = Some (''devmod'', ''1'')\<rparr>
              else if b = ''last''
              then Some \<lparr>dev_IsMoreServiceInfo = False, dev_ServiceInfo = None\<rparr>
              else None),
      encode_OwnerServiceInfo69 =
        (\<lambda>a. (if IsMoreServiceInfo a then ''M'' else ''m'') @ (if IsDone a then ''D'' else ''d'')
              @ (case ServiceInfo a of None \<Rightarrow> [] | Some (k, v) \<Rightarrow> k @ ''='' @ v)),
      AddEncryptionWrapping = (\<lambda>b key suite. if key = [] then None else Some (''enc:'' @ b))\<rparr>"

definition demo_to2_session :: "FdoCmd \<Rightarrow> ServiceInfoKV list \<Rightarrow> 16 word to2_SessionEntry" where
  "demo_to2_session prev sims =
     \<lparr>PrevCMD = prev, SessionKey = ''key'', CipherSuiteName = 1, DeviceSIMs = [],
      OwnerSIMs = sims, OwnerSIMsSendCounter = 0, OwnerSIMsFinishedSending = False\<rparr>"

definition demo_to2_env ::
  "16 word to2_SessionEntry \<Rightarrow> bytes \<Rightarrow> db_faults \<Rightarrow> (16 word, unit) to2_env" where
  "demo_to2_env session bodyBytes flt =
     \<lparr>to2_CheckHeaders = Passed (),
      receiveAndDecrypt = Passed (session, ''uuid-2'', ''Bearer uuid-2'', bodyBytes, None),
      to2_Update_fails = False,
      to2_Update2_fails = False,
      to2_session_faults = flt\<rparr>"

text \<open>
  The answer that carries page \<open>j\<close> of the buffered owner service info \<open>sims\<close>, and
  the event of asking for voucher entry \<open>j\<close> and getting \<open>nextEntry\<close>.
\<close>

definition page_answer :: "ServiceInfoKV list \<Rightarrow> nat \<Rightarrow> OwnerServiceInfo69" where
  "page_answer sims j =
     \<lparr>IsMoreServiceInfo = (j + 1 < length sims), IsDone = (length sims \<le> j + 1),
      ServiceInfo = Some (sims ! j)\<rparr>"


text \<open>
  A requestor to run \<open>preExecuteTo2_66\<close> on: it counts the requests it has sent, and
  its owner serves a voucher of two entries.
\<close>

definition demo_requestor_ops :: "(unit, nat) requestor_ops" where
  "demo_requestor_ops =
     \<lparr>GetVoucher = Inr (),
      NewTo2Requestor = (\<lambda>v. 0),
      HelloDevice60 =
        (\<lambda>q. (Inr \<lparr>OVHeader_bytes = ''header'', NumOVEntries = 2, HMac = ''hmac''\<rparr>, q + 1)),
      GetOVNextEntry62 =
        (\<lambda>q idx. (Inr \<lparr>OVEntryNum = idx,
                          OVEntry = (if idx = 0 then ''entry-0'' else ''entry-1'')\<rparr>, q + 1)),
      VerifyEntries =
        (\<lambda>entries header hmac.
           if entries = [''entry-0'', ''entry-1''] \<and> header = ''header'' \<and> hmac = ''hmac''
           then None else Some ''bad chain''),
      GetOVEntryPubKey = (\<lambda>entry. ''key-of-'' @ entry),
      ProveOVHdr61PubKey = (\<lambda>q. ''key-of-entry-1''),
      Equals = (\<lambda>a b. if a = b then None else Some ''keys differ''),
      ProveDevice64 = (\<lambda>q. (None, q + 1))\<rparr>"

section \<open>Properties of the session store\<close>

lemmas store_defs = NewSessionEntry_def UpdateSessionEntry_def GetSessionEntry_def txn_Get_def
  txn_SetEntry_def NewEntry_def WithTTL_def isExpired_def

lemma txn_Get_fresh:
  "now' < now + MAX_SESSION_TIME \<Longrightarrow>
   txn_Get False now' (txn_SetEntry db (WithTTL now MAX_SESSION_TIME (NewEntry k v))) k
     = Inr \<lparr>Key = k, Value = v, ExpiresAt = now + MAX_SESSION_TIME\<rparr>"
  by (simp add: txn_Get_def txn_SetEntry_def WithTTL_def NewEntry_def isExpired_def)

text \<open>
  C10. Round trip of the session store: if \<open>NewSessionEntry\<close> stores an entry and
  returns the token \<open>t\<close>, and the CBOR decoder gives the entry back from the bytes the
  encoder made of it, then \<open>GetSessionEntry t\<close>, asked before the entry expires and
  with no fault of the store, returns the entry. The token is the UUID text alone,
  the entry is stored under \<open>session-\<close> followed by the token, and the lookup reads
  that same key.
\<close>

theorem session_store_roundtrip:
  assumes new: "NewSessionEntry cb flt randomEntryId now db sessionInst = (Inr t, db')"
      and rt: "\<forall>b. Marshal cb sessionInst = Some b \<longrightarrow> Unmarshal cb b = Some sessionInst"
      and fresh: "now' < now + MAX_SESSION_TIME"
      and ok: "\<not> Get_fails flt'" "\<not> ValueCopy_fails flt'"
  shows "GetSessionEntry cb flt' now' db' t = Inr sessionInst
       \<and> t = randomEntryId
       \<and> (\<exists>b. Marshal cb sessionInst = Some b
              \<and> db' = db(''session-'' @ t \<mapsto>
                     \<lparr>Key = ''session-'' @ t, Value = b, ExpiresAt = now + MAX_SESSION_TIME\<rparr>))
       \<and> GetSessionEntry cb flt' now' db' t
           = GetSessionEntry cb flt' now' [''session-'' @ t \<mapsto> the (db' (''session-'' @ t))] t"
proof -
  from new obtain b where b: "Marshal cb sessionInst = Some b"
    by (auto simp: NewSessionEntry_def split: option.splits)
  from new b have t: "t = randomEntryId"
    by (auto simp: NewSessionEntry_def Let_def split: if_splits)
  from new b have db':
    "db' = txn_SetEntry db (WithTTL now MAX_SESSION_TIME (NewEntry (''session-'' @ t) b))"
    by (auto simp: NewSessionEntry_def Let_def split: if_splits)
  from rt b have u: "Unmarshal cb b = Some sessionInst" by simp
  have get: "GetSessionEntry cb flt' now' db' t = Inr sessionInst"
    using ok u txn_Get_fresh [OF fresh, of db "''session-'' @ t" b]
    by (simp add: GetSessionEntry_def db')
  have upd: "db' = db(''session-'' @ t \<mapsto>
          \<lparr>Key = ''session-'' @ t, Value = b, ExpiresAt = now + MAX_SESSION_TIME\<rparr>)"
    by (simp add: db' txn_SetEntry_def WithTTL_def NewEntry_def)
  have same: "GetSessionEntry cb flt' now' db' t
           = GetSessionEntry cb flt' now' [''session-'' @ t \<mapsto> the (db' (''session-'' @ t))] t"
    by (simp add: GetSessionEntry_def txn_Get_def upd)
  from get t b upd same show ?thesis by blast
qed

theorem session_store_roundtrip_witness:
  "NewSessionEntry username_codec no_faults ''u1'' 0 Map.empty \<lparr>Username = ''alice''\<rparr>
       = (Inr ''u1'', [''session-u1'' \<mapsto>
            \<lparr>Key = ''session-u1'', Value = ''alice'', ExpiresAt = 604800\<rparr>])
     \<and> (10::nat) < 0 + MAX_SESSION_TIME
     \<and> GetSessionEntry username_codec no_faults 10
          [''session-u1'' \<mapsto> \<lparr>Key = ''session-u1'', Value = ''alice'', ExpiresAt = 604800\<rparr>]
          ''u1''
         = Inr \<lparr>Username = ''alice''\<rparr>"
proof -
  have new: "NewSessionEntry username_codec no_faults ''u1'' 0 Map.empty \<lparr>Username = ''alice''\<rparr>
       = (Inr ''u1'', [''session-u1'' \<mapsto>
            \<lparr>Key = ''session-u1'', Value = ''alice'', ExpiresAt = 604800\<rparr>])"
    by (simp add: NewSessionEntry_def username_codec_def no_faults_def MAX_SESSION_TIME_def
        Let_def txn_SetEntry_def WithTTL_def NewEntry_def)
  have rt: "\<forall>b. Marshal username_codec \<lparr>Username = ''alice''\<rparr> = Some b \<longrightarrow>
      Unmarshal username_codec b = Some \<lparr>Username = ''alice''\<rparr>"
    by (simp add: username_codec_def)
  have fresh: "(10::nat) < 0 + MAX_SESSION_TIME" by (simp add: MAX_SESSION_TIME_def)
  have ok: "\<not> Get_fails no_faults" "\<not> ValueCopy_fails no_faults"
    by (simp_all add: no_faults_def)
  from session_store_roundtrip [OF new rt fresh ok] new fresh show ?thesis by simp
qed


text \<open>
  C7, the failing input. A session is created at time 0 and updated once; one second
  after the retention window a lookup of the entry as created finds nothing, but the
  lookup of the updated entry returns the session, and so does a lookup a thousand
  windows later: \<open>UpdateSessionEntry\<close> writes the entry with no expiry.
\<close>

theorem updated_session_outlives_retention:
  "(let (token, db1) = NewSessionEntry username_codec no_faults ''u1'' 0 Map.empty
                         \<lparr>Username = ''alice''\<rparr>;
        (err, db2) = UpdateSessionEntry username_codec no_faults db1 ''u1''
                       \<lparr>Username = ''alice''\<rparr>
    in (GetSessionEntry username_codec no_faults (MAX_SESSION_TIME + 1) db1 ''u1'',
        GetSessionEntry username_codec no_faults (MAX_SESSION_TIME + 1) db2 ''u1'',
        GetSessionEntry username_codec no_faults (1000 * MAX_SESSION_TIME) db2 ''u1''))
   = (Inl DoesNotExist, Inr \<lparr>Username = ''alice''\<rparr>, Inr \<lparr>Username = ''alice''\<rparr>)"
  by (simp add: store_defs username_codec_def no_faults_def Let_def MAX_SESSION_TIME_def)

text \<open>
  The part of C7 that holds: a session that was created and never updated cannot be
  looked up once the retention window has passed, and a ProveToRV32 request that bears
  its token is answered with HTTP 401.
\<close>

theorem unupdated_session_expires:
  assumes new: "NewSessionEntry (session_codec ext) flt randomEntryId now db sessionInst
                  = (Inr t, db')"
      and late: "now + MAX_SESSION_TIME \<le> clock env"
      and hdr: "CheckHeaders env = Passed u"
      and auth: "ExtractAuthorizationHeader env = Passed (t, authorizationHeader)"
  shows "(\<exists>err. GetSessionEntry (session_codec ext) (session_faults env) (clock env) db' t
                   = Inl err)
       \<and> Handle32ProveToRV ext ops env ownersignDB db'
           = respond (FdoError MESSAGE_BODY_ERROR TO1_32_PROVE_TO_RV StatusUnauthorized) db'"
proof -
  from new obtain b where b: "Marshal (session_codec ext) sessionInst = Some b"
    by (auto simp: NewSessionEntry_def split: option.splits)
  from new b have db':
    "db' = txn_SetEntry db (WithTTL now MAX_SESSION_TIME (NewEntry (''session-'' @ t) b))"
    by (auto simp: NewSessionEntry_def Let_def split: if_splits)
  have pos: "0 < MAX_SESSION_TIME" by (simp add: MAX_SESSION_TIME_def)
  have "txn_Get (Get_fails (session_faults env)) (clock env) db' (''session-'' @ t)
          = Inl ErrKeyNotFound
      \<or> txn_Get (Get_fails (session_faults env)) (clock env) db' (''session-'' @ t)
          = Inl ErrOther"
    using late pos
    by (simp add: db' txn_Get_def txn_SetEntry_def WithTTL_def NewEntry_def isExpired_def)
  then have get: "\<exists>err. GetSessionEntry (session_codec ext) (session_faults env) (clock env) db' t
                   = Inl err"
    by (auto simp: GetSessionEntry_def)
  with hdr auth show ?thesis by (auto simp: Handle32ProveToRV_def)
qed

theorem unupdated_session_expires_witness:
  "Handle32ProveToRV demo_ext demo_ops (demo_prove_env\<lparr>clock := 1000 + MAX_SESSION_TIME\<rparr>)
     demo_ownersignDB demo_db
   = respond (FdoError MESSAGE_BODY_ERROR TO1_32_PROVE_TO_RV StatusUnauthorized) demo_db"
proof -
  let ?env = "demo_prove_env\<lparr>clock := 1000 + MAX_SESSION_TIME\<rparr>"
  have new: "NewSessionEntry (session_codec demo_ext) no_faults ''uuid-1'' 1000 Map.empty
               demo_session = (Inr ''uuid-1'', demo_db)"
    by (simp add: NewSessionEntry_def demo_ext_def demo_session_codec_def demo_session_def
        demo_db_def no_faults_def Let_def txn_SetEntry_def WithTTL_def NewEntry_def)
  have late: "1000 + MAX_SESSION_TIME \<le> clock ?env" by simp
  have hdr: "CheckHeaders ?env = Passed ()"
    and auth: "ExtractAuthorizationHeader ?env = Passed (''uuid-1'', ''Bearer uuid-1'')"
    by (simp_all add: demo_prove_env_def demo_env_def)
  from unupdated_session_expires [OF new late hdr auth, of demo_ops demo_ownersignDB]
  show ?thesis by blast
qed

section \<open>Properties of the rendezvous handlers\<close>

lemmas demo_defs = demo_ops_def demo_session_codec_def demo_ext_def demo_guid_def demo_nonce_def
  demo_env_def demo_ownersignDB_def demo_db_def no_faults_def MAX_SESSION_TIME_def
  demo_prove_env_def demo_wrong_nonce_env_def demo_bad_signature_env_def demo_session_def

text \<open>
  C4. A ProveToRV32 request that reaches the decoding of its signed payload: if the
  nonce in the payload differs from the \<open>NonceTO1Proof\<close> of the session, the handler
  answers with the one error response INVALID_MESSAGE_ERROR, HTTP 400, and nothing
  else; and if the handler writes a reply (the redirect), the two nonces are equal.
\<close>

theorem prove_to_rv_nonce_check:
  assumes "CheckHeaders env = Passed u"
    and "ExtractAuthorizationHeader env = Passed (sessionId, authorizationHeader)"
    and "GetSessionEntry (session_codec ext) (session_faults env) (clock env) db sessionId
           = Inr session"
    and "Protocol session = To1"
    and "ReadAll env = Some bodyBytes"
    and "test_stuff ops (Update_fails env) (GetEntryByFdoGuid env (Guid session)) TO1_32_PROVE_TO_RV
           = Some (fdoTestId, testcomListener)"
    and "decode_CoseSignature ext bodyBytes = Some proveToRV32"
    and "decode_EATPayloadBase ext (Payload proveToRV32) = Some pb"
  shows "(EatNonce pb \<noteq> NonceTO1Proof session \<longrightarrow>
            Handle32ProveToRV ext ops env ownersignDB db
              = respond (FdoError INVALID_MESSAGE_ERROR TO1_32_PROVE_TO_RV StatusBadRequest) db)
       \<and> ((\<exists>r \<in> set (responses (Handle32ProveToRV ext ops env ownersignDB db)). is_Reply r) \<longrightarrow>
            EatNonce pb = NonceTO1Proof session)"
  using assms by (auto simp: Handle32ProveToRV_def respond_def)

theorem prove_to_rv_nonce_check_witness:
  "Handle32ProveToRV demo_ext demo_ops demo_wrong_nonce_env demo_ownersignDB demo_db
     = respond (FdoError INVALID_MESSAGE_ERROR TO1_32_PROVE_TO_RV StatusBadRequest) demo_db"
proof -
  let ?cose = "\<lparr>Payload = ''wrong-nonce-0000'', cose_rest = ''good-signature''\<rparr>"
  let ?pb = "\<lparr>EatNonce = ''wrong-nonce-0000'', eat_rest = []\<rparr>"
  have h1: "CheckHeaders demo_wrong_nonce_env = Passed ()"
    and h2: "ExtractAuthorizationHeader demo_wrong_nonce_env
               = Passed (''uuid-1'', ''Bearer uuid-1'')"
    and h5: "ReadAll demo_wrong_nonce_env = Some ''wrong-nonce-0000good-signature''"
    by (simp_all add: demo_defs)
  have h3: "GetSessionEntry (session_codec demo_ext) (session_faults demo_wrong_nonce_env)
      (clock demo_wrong_nonce_env) demo_db ''uuid-1'' = Inr demo_session"
    by (simp add: demo_defs store_defs)
  have h4: "Protocol demo_session = To1" by (simp add: demo_defs)
  have h6: "test_stuff demo_ops (Update_fails demo_wrong_nonce_env)
      (GetEntryByFdoGuid demo_wrong_nonce_env (Guid demo_session)) TO1_32_PROVE_TO_RV
        = Some (NULL_TEST, None)"
    by (simp add: demo_defs test_stuff_def)
  have h7: "decode_CoseSignature demo_ext ''wrong-nonce-0000good-signature'' = Some ?cose"
    by (simp add: demo_defs)
  have h8: "decode_EATPayloadBase demo_ext (Payload ?cose) = Some ?pb"
    by (simp add: demo_defs)
  have ne: "EatNonce ?pb \<noteq> NonceTO1Proof demo_session" by (simp add: demo_defs)
  from prove_to_rv_nonce_check [OF h1 h2 h3 h4 h5 h6 h7 h8, of demo_ownersignDB] ne
  show ?thesis by blast
qed

text \<open>
  C5. A ProveToRV32 request that has passed the nonce check: the handler resolves the
  stored voucher by the device identifier of the session and takes the header's
  public-key type and the device certificate chain from it (\<open>voucher_chain\<close>). If the
  signature of the request does not verify against that chain, the handler answers
  with the one error response INVALID_MESSAGE_ERROR, HTTP 400; and if the handler
  writes a reply (the redirect), the voucher was resolved and the signature verified.
\<close>

theorem prove_to_rv_signature_check:
  assumes "CheckHeaders env = Passed u"
    and "ExtractAuthorizationHeader env = Passed (sessionId, authorizationHeader)"
    and "GetSessionEntry (session_codec ext) (session_faults env) (clock env) db sessionId
           = Inr session"
    and "Protocol session = To1"
    and "ReadAll env = Some bodyBytes"
    and "test_stuff ops (Update_fails env) (GetEntryByFdoGuid env (Guid session)) TO1_32_PROVE_TO_RV
           = Some (fdoTestId, testcomListener)"
    and "decode_CoseSignature ext bodyBytes = Some proveToRV32"
    and "decode_EATPayloadBase ext (Payload proveToRV32) = Some pb"
    and "EatNonce pb = NonceTO1Proof session"
  shows "(\<forall>pkType chain. voucher_chain ext ownersignDB session = Some (pkType, chain)
             \<and> \<not> VerifyCoseSignatureWithCertificate ext proveToRV32 pkType chain \<longrightarrow>
            Handle32ProveToRV ext ops env ownersignDB db
              = respond (FdoError INVALID_MESSAGE_ERROR TO1_32_PROVE_TO_RV StatusBadRequest) db)
       \<and> ((\<exists>r \<in> set (responses (Handle32ProveToRV ext ops env ownersignDB db)). is_Reply r) \<longrightarrow>
            (\<exists>pkType chain. voucher_chain ext ownersignDB session = Some (pkType, chain)
               \<and> VerifyCoseSignatureWithCertificate ext proveToRV32 pkType chain))"
  using assms
  by (auto simp: Handle32ProveToRV_def voucher_chain_def respond_def panic_def Let_def
      split: option.splits if_splits)

theorem prove_to_rv_signature_check_witness:
  "Handle32ProveToRV demo_ext demo_ops demo_bad_signature_env demo_ownersignDB demo_db
     = respond (FdoError INVALID_MESSAGE_ERROR TO1_32_PROVE_TO_RV StatusBadRequest) demo_db"
proof -
  let ?cose = "\<lparr>Payload = demo_nonce, cose_rest = ''forged-signature''\<rparr>"
  let ?pb = "\<lparr>EatNonce = demo_nonce, eat_rest = []\<rparr>"
  have h1: "CheckHeaders demo_bad_signature_env = Passed ()"
    and h2: "ExtractAuthorizationHeader demo_bad_signature_env
               = Passed (''uuid-1'', ''Bearer uuid-1'')"
    and h5: "ReadAll demo_bad_signature_env = Some (demo_nonce @ ''forged-signature'')"
    by (simp_all add: demo_defs)
  have h3: "GetSessionEntry (session_codec demo_ext) (session_faults demo_bad_signature_env)
      (clock demo_bad_signature_env) demo_db ''uuid-1'' = Inr demo_session"
    by (simp add: demo_defs store_defs)
  have h4: "Protocol demo_session = To1" by (simp add: demo_defs)
  have h6: "test_stuff demo_ops (Update_fails demo_bad_signature_env)
      (GetEntryByFdoGuid demo_bad_signature_env (Guid demo_session)) TO1_32_PROVE_TO_RV
        = Some (NULL_TEST, None)"
    by (simp add: demo_defs test_stuff_def)
  have h7: "decode_CoseSignature demo_ext (demo_nonce @ ''forged-signature'') = Some ?cose"
    by (simp add: demo_defs)
  have h8: "decode_EATPayloadBase demo_ext (Payload ?cose) = Some ?pb"
    by (simp add: demo_defs)
  have h9: "EatNonce ?pb = NonceTO1Proof demo_session" by (simp add: demo_defs)
  have vc: "voucher_chain demo_ext demo_ownersignDB demo_session = Some (10, [''device-cert''])"
    by (simp add: demo_defs voucher_chain_def)
  have bad: "\<not> VerifyCoseSignatureWithCertificate demo_ext ?cose 10 [''device-cert'']"
    by (simp add: demo_defs)
  from prove_to_rv_signature_check [OF h1 h2 h3 h4 h5 h6 h7 h8 h9, of demo_ownersignDB] vc bad
  show ?thesis by blast
qed

text \<open>
  C8, as the code has it. A HelloRV30 request whose body decodes to a device identifier
  with no stored owner-sign record: the handler creates no session and answers with
  one error response of HTTP status 400 (not 404). Its error code is
  RESOURCE_NOT_FOUND, unless the save of the conformance listener failed before the
  lookup, and then it is INTERNAL_SERVER_ERROR.
\<close>

theorem hello_rv_unknown_guid:
  assumes "CheckHeaders env = Passed u"
    and "ReadAll env = Some bodyBytes"
    and "decode_HelloRV30 ext bodyBytes = Some helloRV30"
    and "ownersignDB (hello_Guid helloRV30) = None"
  shows "sessions (Handle30HelloRV ext ops env ownersignDB db) = db
       \<and> \<not> panicked (Handle30HelloRV ext ops env ownersignDB db)
       \<and> (\<exists>code. responses (Handle30HelloRV ext ops env ownersignDB db)
                     = [FdoError code TO1_30_HELLO_RV StatusBadRequest]
              \<and> (code = RESOURCE_NOT_FOUND \<or> code = INTERNAL_SERVER_ERROR)
              \<and> (test_stuff ops (Update_fails env) (GetEntryByFdoGuid env (hello_Guid helloRV30))
                    TO1_30_HELLO_RV \<noteq> None \<longrightarrow> code = RESOURCE_NOT_FOUND))"
  using assms
  by (auto simp: Handle30HelloRV_def respond_def split: option.splits)

theorem hello_rv_unknown_guid_witness:
  "sessions (Handle30HelloRV demo_ext demo_ops demo_env Map.empty Map.empty) = Map.empty
   \<and> responses (Handle30HelloRV demo_ext demo_ops demo_env Map.empty Map.empty)
       = [FdoError RESOURCE_NOT_FOUND TO1_30_HELLO_RV StatusBadRequest]"
proof -
  let ?hello = "\<lparr>hello_Guid = demo_guid, EASigInfo = ''siginfo''\<rparr>"
  have h1: "CheckHeaders demo_env = Passed ()"
    and h2: "ReadAll demo_env = Some (demo_guid @ ''siginfo'')"
    by (simp_all add: demo_defs)
  have h3: "decode_HelloRV30 demo_ext (demo_guid @ ''siginfo'') = Some ?hello"
    by (simp add: demo_defs)
  have h4: "Map.empty (hello_Guid ?hello) = (None :: OwnerSign option)" by simp
  have ts: "test_stuff demo_ops (Update_fails demo_env)
      (GetEntryByFdoGuid demo_env (hello_Guid ?hello)) TO1_30_HELLO_RV \<noteq> None"
    by (simp add: demo_defs test_stuff_def)
  from hello_rv_unknown_guid [OF h1 h2 h3 h4, of demo_ops Map.empty] ts show ?thesis by auto
qed

text \<open>
  The claim C8 as stated (HTTP status 404) fails: on the request \<open>demo_env\<close> and an
  empty owner-sign store the one response has status 400.
\<close>

theorem hello_rv_unknown_guid_not_404:
  "map http_status (responses (Handle30HelloRV demo_ext demo_ops demo_env Map.empty Map.empty))
     = [StatusBadRequest]
   \<and> StatusBadRequest \<noteq> StatusNotFound"
  by (simp add: Handle30HelloRV_def demo_defs test_stuff_def respond_def StatusBadRequest_def
      StatusNotFound_def)

section \<open>Properties of DeviceServiceInfo68\<close>

lemmas demo_to2_defs = demo_to2_ext_def demo_to2_session_def demo_to2_env_def demo_ops_def
  no_faults_def

lemma DeviceServiceInfo68_shape:
  assumes "to2_CheckHeaders env = Passed u"
    and "receiveAndDecrypt env
           = Passed (session, sessionId, authorizationHeader, bodyBytes, testcomListener)"
  shows "\<exists>r db'. DeviceServiceInfo68 ext ops env db = respond r db'
               \<or> DeviceServiceInfo68 ext ops env db = panic db'"
  using assms
  by (simp add: DeviceServiceInfo68_def Let_def split: option.split prod.split) blast

text \<open>
  C1. A DeviceServiceInfo request for a session whose previous message type is neither
  67 nor 69: the session store is left as it was, the handler does not panic, and it
  writes one error response, of HTTP status 401 or 400. The response is
  MESSAGE_BODY_ERROR with status 401 (Unauthorized) whenever the save of the
  conformance listener, which comes first, did not fail.
\<close>

theorem device_service_info_rejects_wrong_prev_cmd:
  assumes "to2_CheckHeaders env = Passed u"
    and "receiveAndDecrypt env
           = Passed (session, sessionId, authorizationHeader, bodyBytes, testcomListener)"
    and "PrevCMD session \<noteq> 67" and "PrevCMD session \<noteq> 69"
  shows "sessions (DeviceServiceInfo68 ext ops env db) = db
       \<and> \<not> panicked (DeviceServiceInfo68 ext ops env db)
       \<and> (\<exists>code status. responses (DeviceServiceInfo68 ext ops env db)
                = [FdoError code TO2_68_DEVICE_SERVICE_INFO status]
             \<and> (status = StatusUnauthorized \<or> status = StatusBadRequest))
       \<and> (test_stuff ops (to2_Update_fails env) testcomListener TO2_68_DEVICE_SERVICE_INFO
             \<noteq> None \<longrightarrow>
            DeviceServiceInfo68 ext ops env db
              = respond (FdoError MESSAGE_BODY_ERROR TO2_68_DEVICE_SERVICE_INFO
                           StatusUnauthorized) db)"
  using assms
  by (auto simp: DeviceServiceInfo68_def respond_def TO2_67_OWNER_SERVICE_INFO_READY_def
      TO2_69_OWNER_SERVICE_INFO_def split: option.splits)

theorem device_service_info_rejects_wrong_prev_cmd_witness:
  "DeviceServiceInfo68 demo_to2_ext demo_ops
     (demo_to2_env (demo_to2_session TO2_64_PROVE_DEVICE [(''k'', ''v'')]) ''last'' no_faults)
     Map.empty
   = respond (FdoError MESSAGE_BODY_ERROR TO2_68_DEVICE_SERVICE_INFO StatusUnauthorized) Map.empty"
proof -
  let ?s = "demo_to2_session TO2_64_PROVE_DEVICE [(''k'', ''v'')]"
  let ?env = "demo_to2_env ?s ''last'' no_faults"
  have h1: "to2_CheckHeaders ?env = Passed ()"
    and h2: "receiveAndDecrypt ?env = Passed (?s, ''uuid-2'', ''Bearer uuid-2'', ''last'', None)"
    by (simp_all add: demo_to2_env_def)
  have h3: "PrevCMD ?s \<noteq> 67" and h4: "PrevCMD ?s \<noteq> 69"
    by (simp_all add: demo_to2_session_def TO2_64_PROVE_DEVICE_def)
  have ts: "test_stuff demo_ops (to2_Update_fails ?env) None TO2_68_DEVICE_SERVICE_INFO \<noteq> None"
    by (simp add: test_stuff_def)
  from device_service_info_rejects_wrong_prev_cmd [OF h1 h2 h3 h4, of demo_to2_ext demo_ops
      Map.empty] ts
  show ?thesis by blast
qed

text \<open>
  The part of C9 that holds. Take a DeviceServiceInfo68 request that passed the two
  helpers. If its computation succeeds (previous message type 67 or 69, the body
  decodes, the main body does not panic, the encryption wrapping succeeds) and the
  update of the session entry then returns an error, the handler writes the one
  response INTERNAL_SERVER_ERROR with HTTP status 500, not the computed answer, and the
  store is as before. On every path on which the handler returns it has written
  exactly one response; where it panics it has written none.
\<close>

theorem device_service_info_persistence_failure:
  assumes "to2_CheckHeaders env = Passed u"
    and "receiveAndDecrypt env
           = Passed (session, sessionId, authorizationHeader, bodyBytes, testcomListener)"
  shows "(\<forall>fdoTestId l deviceServiceInfo ownerServiceInfo session' enc err.
            test_stuff ops (to2_Update_fails env) testcomListener TO2_68_DEVICE_SERVICE_INFO
               = Some (fdoTestId, l)
          \<and> (PrevCMD session = 67 \<or> PrevCMD session = 69)
          \<and> decode_DeviceServiceInfo68 ext bodyBytes = Some deviceServiceInfo
          \<and> main_body session deviceServiceInfo = Some (ownerServiceInfo, session')
          \<and> AddEncryptionWrapping ext (encode_OwnerServiceInfo69 ext ownerServiceInfo)
               (SessionKey session') (CipherSuiteName session') = Some enc
          \<and> fst (UpdateSessionEntry (to2_session_codec ext) (to2_session_faults env) db sessionId
                    (session'\<lparr>PrevCMD := TO2_69_OWNER_SERVICE_INFO\<rparr>)) = Some err
          \<longrightarrow> DeviceServiceInfo68 ext ops env db
                = respond (FdoError INTERNAL_SERVER_ERROR TO2_68_DEVICE_SERVICE_INFO
                             StatusInternalServerError) db)
       \<and> (\<not> panicked (DeviceServiceInfo68 ext ops env db) \<longrightarrow>
             length (responses (DeviceServiceInfo68 ext ops env db)) = 1)
       \<and> (panicked (DeviceServiceInfo68 ext ops env db) \<longrightarrow>
             responses (DeviceServiceInfo68 ext ops env db) = [])"
proof (intro conjI allI impI)
  fix fdoTestId l deviceServiceInfo ownerServiceInfo session' enc err
  assume "test_stuff ops (to2_Update_fails env) testcomListener TO2_68_DEVICE_SERVICE_INFO
               = Some (fdoTestId, l)
          \<and> (PrevCMD session = 67 \<or> PrevCMD session = 69)
          \<and> decode_DeviceServiceInfo68 ext bodyBytes = Some deviceServiceInfo
          \<and> main_body session deviceServiceInfo = Some (ownerServiceInfo, session')
          \<and> AddEncryptionWrapping ext (encode_OwnerServiceInfo69 ext ownerServiceInfo)
               (SessionKey session') (CipherSuiteName session') = Some enc
          \<and> fst (UpdateSessionEntry (to2_session_codec ext) (to2_session_faults env) db sessionId
                    (session'\<lparr>PrevCMD := TO2_69_OWNER_SERVICE_INFO\<rparr>)) = Some err"
  then have ts: "test_stuff ops (to2_Update_fails env) testcomListener TO2_68_DEVICE_SERVICE_INFO
               = Some (fdoTestId, l)"
    and prev: "PrevCMD session = 67 \<or> PrevCMD session = 69"
    and dec: "decode_DeviceServiceInfo68 ext bodyBytes = Some deviceServiceInfo"
    and body: "main_body session deviceServiceInfo = Some (ownerServiceInfo, session')"
    and enc: "AddEncryptionWrapping ext (encode_OwnerServiceInfo69 ext ownerServiceInfo)
               (SessionKey session') (CipherSuiteName session') = Some enc"
    and fails: "fst (UpdateSessionEntry (to2_session_codec ext) (to2_session_faults env) db
                    sessionId (session'\<lparr>PrevCMD := TO2_69_OWNER_SERVICE_INFO\<rparr>)) = Some err"
    by simp_all
  from fails have upd: "UpdateSessionEntry (to2_session_codec ext) (to2_session_faults env) db
        sessionId (session'\<lparr>PrevCMD := TO2_69_OWNER_SERVICE_INFO\<rparr>) = (Some err, db)"
    by (auto simp: UpdateSessionEntry_def Let_def split: option.splits if_splits)
  from prev have guard: "\<not> (PrevCMD session \<noteq> TO2_67_OWNER_SERVICE_INFO_READY
           \<and> PrevCMD session \<noteq> TO2_69_OWNER_SERVICE_INFO)"
    by (auto simp: TO2_67_OWNER_SERVICE_INFO_READY_def TO2_69_OWNER_SERVICE_INFO_def)
  show "DeviceServiceInfo68 ext ops env db
                = respond (FdoError INTERNAL_SERVER_ERROR TO2_68_DEVICE_SERVICE_INFO
                             StatusInternalServerError) db"
    using assms ts guard dec body enc upd
    by (auto simp: DeviceServiceInfo68_def)
next
  assume "\<not> panicked (DeviceServiceInfo68 ext ops env db)"
  with DeviceServiceInfo68_shape [OF assms, of ext ops db]
  show "length (responses (DeviceServiceInfo68 ext ops env db)) = 1"
    by (auto simp: respond_def panic_def)
next
  assume "panicked (DeviceServiceInfo68 ext ops env db)"
  with DeviceServiceInfo68_shape [OF assms, of ext ops db]
  show "responses (DeviceServiceInfo68 ext ops env db) = []"
    by (auto simp: respond_def panic_def)
qed

theorem device_service_info_persistence_failure_witness:
  "DeviceServiceInfo68 demo_to2_ext demo_ops
     (demo_to2_env (demo_to2_session TO2_67_OWNER_SERVICE_INFO_READY [(''k'', ''v'')]) ''last''
        (no_faults\<lparr>Commit_fails := True\<rparr>))
     Map.empty
   = respond (FdoError INTERNAL_SERVER_ERROR TO2_68_DEVICE_SERVICE_INFO StatusInternalServerError)
       Map.empty"
proof -
  let ?s = "demo_to2_session TO2_67_OWNER_SERVICE_INFO_READY [(''k'', ''v'')]"
  let ?env = "demo_to2_env ?s ''last'' (no_faults\<lparr>Commit_fails := True\<rparr>)"
  let ?dsi = "\<lparr>dev_IsMoreServiceInfo = False, dev_ServiceInfo = None\<rparr>"
  let ?osi = "\<lparr>IsMoreServiceInfo = False, IsDone = True, ServiceInfo = Some (''k'', ''v'')\<rparr>"
  let ?s' = "?s\<lparr>OwnerSIMsFinishedSending := True, OwnerSIMsSendCounter := 1\<rparr>"
  have h1: "to2_CheckHeaders ?env = Passed ()"
    and h2: "receiveAndDecrypt ?env = Passed (?s, ''uuid-2'', ''Bearer uuid-2'', ''last'', None)"
    by (simp_all add: demo_to2_env_def)
  have ts: "test_stuff demo_ops (to2_Update_fails ?env) None TO2_68_DEVICE_SERVICE_INFO
      = Some (NULL_TEST, None)"
    by (simp add: test_stuff_def)
  have prev: "PrevCMD ?s = 67 \<or> PrevCMD ?s = 69"
    by (simp add: demo_to2_session_def TO2_67_OWNER_SERVICE_INFO_READY_def)
  have dec: "decode_DeviceServiceInfo68 demo_to2_ext ''last'' = Some ?dsi"
    by (simp add: demo_to2_ext_def)
  have body: "main_body ?s ?dsi = Some (?osi, ?s')"
    by (simp add: main_body_def demo_to2_session_def Let_def)
  have enc: "AddEncryptionWrapping demo_to2_ext (encode_OwnerServiceInfo69 demo_to2_ext ?osi)
      (SessionKey ?s') (CipherSuiteName ?s') = Some ''enc:mDk=v''"
    by (simp add: demo_to2_ext_def demo_to2_session_def)
  have fails: "fst (UpdateSessionEntry (to2_session_codec demo_to2_ext) (to2_session_faults ?env)
      Map.empty ''uuid-2'' (?s'\<lparr>PrevCMD := TO2_69_OWNER_SERVICE_INFO\<rparr>)) = Some FailedSaving"
    by (simp add: UpdateSessionEntry_def demo_to2_ext_def demo_to2_env_def no_faults_def Let_def)
  from device_service_info_persistence_failure [OF h1 h2, of demo_ops demo_to2_ext Map.empty]
    ts prev dec body enc fails
  show ?thesis by blast
qed

text \<open>
  C9, the failing inputs. Two requests on which the handler fails and writes no
  response at all, where the claim has exactly one on every error path. The first is
  a device message that announces more and carries no service info: the handler
  dereferences the nil \<^verbatim>\<open>ServiceInfo\<close> and panics. The second is a message that
  announces no more, sent again after the last page has been served (the counter is
  the length of the buffer): the handler panics on
  \<^verbatim>\<open>session.OwnerSIMs[session.OwnerSIMsSendCounter]\<close>. In both the session store is
  left as it was.
\<close>

theorem device_service_info_error_paths_without_response:
  "DeviceServiceInfo68
     (demo_to2_ext\<lparr>decode_DeviceServiceInfo68 :=
        (\<lambda>b. Some \<lparr>dev_IsMoreServiceInfo = True, dev_ServiceInfo = None\<rparr>)\<rparr>)
     demo_ops
     (demo_to2_env (demo_to2_session TO2_67_OWNER_SERVICE_INFO_READY [(''k'', ''v'')])
        ''more-without-info'' no_faults)
     Map.empty
   = \<lparr>responses = [], sessions = Map.empty, panicked = True\<rparr>
   \<and> DeviceServiceInfo68 demo_to2_ext demo_ops
     (demo_to2_env
        ((demo_to2_session TO2_69_OWNER_SERVICE_INFO [(''k'', ''v'')])
           \<lparr>OwnerSIMsSendCounter := 1, OwnerSIMsFinishedSending := True\<rparr>)
        ''last'' no_faults)
     Map.empty
   = \<lparr>responses = [], sessions = Map.empty, panicked = True\<rparr>"
  by (simp add: DeviceServiceInfo68_def demo_to2_defs test_stuff_def main_body_def Let_def
      panic_def TO2_67_OWNER_SERVICE_INFO_READY_def TO2_69_OWNER_SERVICE_INFO_def)

section \<open>The service-info exchange\<close>

text \<open>
  C2, the failing input. The session holds no owner service info (n = 0) and the
  device sends a message that announces no more: the handler panics on
  \<^verbatim>\<open>session.OwnerSIMs[0]\<close>, writes no response and saves nothing, where the claim has
  an answer with \<open>IsDone\<close> set and no page.
\<close>

theorem empty_owner_service_info_panics:
  "DeviceServiceInfo68 demo_to2_ext demo_ops
     (demo_to2_env (demo_to2_session TO2_67_OWNER_SERVICE_INFO_READY []) ''last'' no_faults)
     Map.empty
   = panic Map.empty"
  by (simp add: DeviceServiceInfo68_def demo_to2_defs test_stuff_def main_body_def Let_def
      TO2_67_OWNER_SERVICE_INFO_READY_def TO2_69_OWNER_SERVICE_INFO_def)

lemma unat_succ:
  fixes c :: "'w::len word"
  assumes "unat c + 1 < 2 ^ LENGTH('w)"
  shows "unat (c + 1) = unat c + 1"
proof -
  have "unat c + unat (1 :: 'w word) < 2 ^ LENGTH('w)" using assms by simp
  then have "unat (c + 1) = unat c + unat (1 :: 'w word)" by (simp only: unat_add_lem)
  then show ?thesis by simp
qed

lemma session_step_more:
  fixes s :: "('w::len) word to2_SessionEntry"
  assumes "PrevCMD s = 67 \<or> PrevCMD s = 69"
    and "dev_IsMoreServiceInfo m" and "dev_ServiceInfo m = Some i"
  shows "session_step s m
       = Some (\<lparr>IsMoreServiceInfo = False, IsDone = False, ServiceInfo = None\<rparr>,
               s\<lparr>DeviceSIMs := DeviceSIMs s @ [i], PrevCMD := TO2_69_OWNER_SERVICE_INFO\<rparr>)"
  using assms
  by (auto simp: session_step_def main_body_def TO2_67_OWNER_SERVICE_INFO_READY_def
      TO2_69_OWNER_SERVICE_INFO_def)

lemma session_step_last:
  fixes s :: "('w::len) word to2_SessionEntry"
  assumes "PrevCMD s = 67 \<or> PrevCMD s = 69"
    and "\<not> dev_IsMoreServiceInfo m"
    and "unat (OwnerSIMsSendCounter s) < length (OwnerSIMs s)"
    and "length (OwnerSIMs s) < 2 ^ LENGTH('w)"
  shows "\<exists>s'. session_step s m
                 = Some (page_answer (OwnerSIMs s) (unat (OwnerSIMsSendCounter s)), s')
            \<and> PrevCMD s' = 69 \<and> OwnerSIMs s' = OwnerSIMs s
            \<and> unat (OwnerSIMsSendCounter s') = unat (OwnerSIMsSendCounter s) + 1"
proof -
  from assms(3,4) have "unat (OwnerSIMsSendCounter s) + 1 < 2 ^ LENGTH('w)" by simp
  then have u: "unat (OwnerSIMsSendCounter s + 1) = unat (OwnerSIMsSendCounter s) + 1"
    by (rule unat_succ)
  show ?thesis
    using assms u
    by (auto simp: session_step_def main_body_def page_answer_def Let_def
        TO2_67_OWNER_SERVICE_INFO_READY_def TO2_69_OWNER_SERVICE_INFO_def)
qed

lemma exchange_pages:
  fixes s :: "('w::len) word to2_SessionEntry"
  assumes "PrevCMD s = 67 \<or> PrevCMD s = 69"
    and "length (OwnerSIMs s) < 2 ^ LENGTH('w)"
    and "unat (OwnerSIMsSendCounter s) + length (filter (\<lambda>m. \<not> dev_IsMoreServiceInfo m) msgs)
           \<le> length (OwnerSIMs s)"
    and "\<forall>m \<in> set msgs. dev_IsMoreServiceInfo m \<longrightarrow> dev_ServiceInfo m \<noteq> None"
  shows "\<exists>answers. exchange s msgs = Some answers \<and> length answers = length msgs
          \<and> filter (\<lambda>a. ServiceInfo a \<noteq> None) answers
              = map (page_answer (OwnerSIMs s))
                  [unat (OwnerSIMsSendCounter s) ..<
                   unat (OwnerSIMsSendCounter s)
                     + length (filter (\<lambda>m. \<not> dev_IsMoreServiceInfo m) msgs)]"
  using assms
proof (induction msgs arbitrary: s)
  case Nil
  then show ?case by simp
next
  case (Cons m msgs)
  let ?c = "unat (OwnerSIMsSendCounter s)"
  let ?k = "length (filter (\<lambda>m. \<not> dev_IsMoreServiceInfo m) msgs)"
  show ?case
  proof (cases "dev_IsMoreServiceInfo m")
    case True
    with Cons.prems(4) obtain i where i: "dev_ServiceInfo m = Some i" by auto
    let ?s' = "s\<lparr>DeviceSIMs := DeviceSIMs s @ [i], PrevCMD := TO2_69_OWNER_SERVICE_INFO\<rparr>"
    have st: "session_step s m
        = Some (\<lparr>IsMoreServiceInfo = False, IsDone = False, ServiceInfo = None\<rparr>, ?s')"
      using session_step_more [OF Cons.prems(1) True i] .
    have "\<exists>answers. exchange ?s' msgs = Some answers \<and> length answers = length msgs
          \<and> filter (\<lambda>a. ServiceInfo a \<noteq> None) answers
              = map (page_answer (OwnerSIMs ?s'))
                  [unat (OwnerSIMsSendCounter ?s') ..< unat (OwnerSIMsSendCounter ?s') + ?k]"
      using Cons.prems True
      by (intro Cons.IH) (simp_all add: TO2_69_OWNER_SERVICE_INFO_def)
    then show ?thesis using st True by auto
  next
    case False
    from Cons.prems(3) False have lt: "?c < length (OwnerSIMs s)" by simp
    from session_step_last [OF Cons.prems(1) False lt Cons.prems(2)]
    obtain s' where st: "session_step s m = Some (page_answer (OwnerSIMs s) ?c, s')"
      and p: "PrevCMD s' = 69" and o: "OwnerSIMs s' = OwnerSIMs s"
      and c: "unat (OwnerSIMsSendCounter s') = ?c + 1"
      by blast
    have "\<exists>answers. exchange s' msgs = Some answers \<and> length answers = length msgs
          \<and> filter (\<lambda>a. ServiceInfo a \<noteq> None) answers
              = map (page_answer (OwnerSIMs s'))
                  [unat (OwnerSIMsSendCounter s') ..< unat (OwnerSIMsSendCounter s') + ?k]"
      using Cons.prems False p o c
      by (intro Cons.IH) simp_all
    then obtain answers where a: "exchange s' msgs = Some answers" "length answers = length msgs"
      "filter (\<lambda>a. ServiceInfo a \<noteq> None) answers
         = map (page_answer (OwnerSIMs s)) [?c + 1 ..< ?c + 1 + ?k]"
      using o c by auto
    have sp: "ServiceInfo (page_answer (OwnerSIMs s) ?c) \<noteq> None"
      by (simp add: page_answer_def)
    have k: "length (filter (\<lambda>m. \<not> dev_IsMoreServiceInfo m) (m # msgs)) = Suc ?k"
      using False by simp
    have upt: "[?c ..< ?c + Suc ?k] = ?c # [?c + 1 ..< ?c + 1 + ?k]"
      by (subst upt_rec) simp
    have ex: "exchange s (m # msgs) = Some (page_answer (OwnerSIMs s) ?c # answers)"
      using st a(1) by simp
    have fl: "filter (\<lambda>a. ServiceInfo a \<noteq> None) (page_answer (OwnerSIMs s) ?c # answers)
        = map (page_answer (OwnerSIMs s)) [?c ..< ?c + Suc ?k]"
      using sp a(3) by (simp only: upt filter.simps list.map not_False_eq_True not_not if_True)
    show ?thesis
      unfolding k using ex fl a(2) by simp
  qed
qed

text \<open>
  One step of the exchange is what the handler does to the session: where no test is
  drawn and nothing fails, the handler answers with the encrypted encoding of the
  step's answer and saves the step's session under the key of the session identifier.
\<close>

lemma DeviceServiceInfo68_session_step:
  assumes "to2_CheckHeaders env = Passed u"
    and "receiveAndDecrypt env
           = Passed (session, sessionId, authorizationHeader, bodyBytes, testcomListener)"
    and "test_stuff ops (to2_Update_fails env) testcomListener TO2_68_DEVICE_SERVICE_INFO
           = Some (NULL_TEST, l)"
    and "decode_DeviceServiceInfo68 ext bodyBytes = Some deviceServiceInfo"
    and "session_step session deviceServiceInfo = Some (ownerServiceInfo, session')"
    and "AddEncryptionWrapping ext (encode_OwnerServiceInfo69 ext ownerServiceInfo)
           (SessionKey session') (CipherSuiteName session') = Some enc"
    and "Marshal (to2_session_codec ext) session' = Some b"
    and "\<not> SetEntry_fails (to2_session_faults env)"
    and "\<not> Commit_fails (to2_session_faults env)"
  shows "DeviceServiceInfo68 ext ops env db
       = respond (Reply authorizationHeader TO2_69_OWNER_SERVICE_INFO enc)
           (db(''session-'' @ sessionId \<mapsto>
              \<lparr>Key = ''session-'' @ sessionId, Value = b, ExpiresAt = 0\<rparr>))"
  using assms
  by (auto simp: DeviceServiceInfo68_def session_step_def UpdateSessionEntry_def Let_def
      txn_SetEntry_def NewEntry_def split: option.splits if_splits)

lemma pages_filter:
  "pages answers = map (\<lambda>a. the (ServiceInfo a)) (filter (\<lambda>a. ServiceInfo a \<noteq> None) answers)"
  by (induction answers) (auto simp: pages_def split: option.splits)

text \<open>
  The part of C2 that holds. The session is at the start of the exchange (counter 0),
  its buffer is shorter than the counter can count, the device sends as many messages
  that announce no more as the buffer has pages, and every message that announces
  more carries an item. Then every request is answered, the pages delivered are the
  buffer, in its order, and the answer that carries page \<open>j\<close> has \<open>IsDone\<close> exactly
  when \<open>j\<close> is the last page and \<open>IsMoreServiceInfo\<close> exactly when it is not.
\<close>

theorem service_info_exchange_delivers_pages:
  fixes s :: "('w::len) word to2_SessionEntry"
  assumes "PrevCMD s = 67 \<or> PrevCMD s = 69"
    and "OwnerSIMsSendCounter s = 0"
    and "length (OwnerSIMs s) < 2 ^ LENGTH('w)"
    and "length (filter (\<lambda>m. \<not> dev_IsMoreServiceInfo m) msgs) = length (OwnerSIMs s)"
    and "\<forall>m \<in> set msgs. dev_IsMoreServiceInfo m \<longrightarrow> dev_ServiceInfo m \<noteq> None"
  shows "\<exists>answers. exchange s msgs = Some answers
          \<and> length answers = length msgs
          \<and> pages answers = OwnerSIMs s
          \<and> filter (\<lambda>a. ServiceInfo a \<noteq> None) answers
              = map (page_answer (OwnerSIMs s)) [0 ..< length (OwnerSIMs s)]"
proof -
  from exchange_pages [OF assms(1) assms(3) _ assms(5)] assms(2,4)
  obtain answers where a: "exchange s msgs = Some answers" "length answers = length msgs"
    "filter (\<lambda>a. ServiceInfo a \<noteq> None) answers
       = map (page_answer (OwnerSIMs s)) [0 ..< length (OwnerSIMs s)]"
    by auto
  have "pages answers = map (\<lambda>a. the (ServiceInfo a))
                          (map (page_answer (OwnerSIMs s)) [0 ..< length (OwnerSIMs s)])"
    by (simp only: pages_filter a(3))
  then have "pages answers = map (\<lambda>j. OwnerSIMs s ! j) [0 ..< length (OwnerSIMs s)]"
    by (simp add: page_answer_def o_def)
  then have "pages answers = OwnerSIMs s" by (simp add: map_nth)
  with a show ?thesis by blast
qed

theorem service_info_exchange_delivers_pages_witness:
  "exchange (demo_to2_session TO2_67_OWNER_SERVICE_INFO_READY [(''a'', ''1''), (''b'', ''2'')])
     [\<lparr>dev_IsMoreServiceInfo = True, dev_ServiceInfo = Some (''devmod'', ''1'')\<rparr>,
      \<lparr>dev_IsMoreServiceInfo = False, dev_ServiceInfo = None\<rparr>,
      \<lparr>dev_IsMoreServiceInfo = False, dev_ServiceInfo = None\<rparr>]
   = Some [\<lparr>IsMoreServiceInfo = False, IsDone = False, ServiceInfo = None\<rparr>,
           \<lparr>IsMoreServiceInfo = True, IsDone = False, ServiceInfo = Some (''a'', ''1'')\<rparr>,
           \<lparr>IsMoreServiceInfo = False, IsDone = True, ServiceInfo = Some (''b'', ''2'')\<rparr>]"
proof -
  let ?s = "demo_to2_session TO2_67_OWNER_SERVICE_INFO_READY [(''a'', ''1''), (''b'', ''2'')]"
  let ?msgs = "[\<lparr>dev_IsMoreServiceInfo = True, dev_ServiceInfo = Some (''devmod'', ''1'')\<rparr>,
      \<lparr>dev_IsMoreServiceInfo = False, dev_ServiceInfo = None\<rparr>,
      \<lparr>dev_IsMoreServiceInfo = False, dev_ServiceInfo = None\<rparr>]"
  have h1: "PrevCMD ?s = 67 \<or> PrevCMD ?s = 69"
    by (simp add: demo_to2_session_def TO2_67_OWNER_SERVICE_INFO_READY_def)
  have h2: "OwnerSIMsSendCounter ?s = 0" by (simp add: demo_to2_session_def)
  have h3: "length (OwnerSIMs ?s) < 2 ^ LENGTH(16)" by (simp add: demo_to2_session_def)
  have h4: "length (filter (\<lambda>m. \<not> dev_IsMoreServiceInfo m) ?msgs) = length (OwnerSIMs ?s)"
    by (simp add: demo_to2_session_def)
  have h5: "\<forall>m \<in> set ?msgs. dev_IsMoreServiceInfo m \<longrightarrow> dev_ServiceInfo m \<noteq> None" by simp
  from service_info_exchange_delivers_pages [OF h1 h2 h3 h4 h5]
  obtain answers where a: "exchange ?s ?msgs = Some answers" by blast
  moreover have "exchange ?s ?msgs
    = Some [\<lparr>IsMoreServiceInfo = False, IsDone = False, ServiceInfo = None\<rparr>,
           \<lparr>IsMoreServiceInfo = True, IsDone = False, ServiceInfo = Some (''a'', ''1'')\<rparr>,
           \<lparr>IsMoreServiceInfo = False, IsDone = True, ServiceInfo = Some (''b'', ''2'')\<rparr>]"
    by (simp add: session_step_def main_body_def demo_to2_session_def Let_def
        TO2_67_OWNER_SERVICE_INFO_READY_def TO2_69_OWNER_SERVICE_INFO_def)
  ultimately show ?thesis by simp
qed

section \<open>Properties of preExecuteTo2_66\<close>

declare ov_loop.simps [simp del]



text \<open>
  What the function returns on an entry of the wrong number: when the first entry the
  owner returns does not carry the number 0, \<open>preExecuteTo2_66\<close> sends nothing more
  and returns no requestor and no error (\<^verbatim>\<open>return nil, err\<close> with a nil \<^verbatim>\<open>err\<close>).
\<close>

theorem pre_execute_wrong_entry_number:
  assumes "GetVoucher ops = Inr testCred"
    and "HelloDevice60 ops (NewTo2Requestor ops testCred) = (Inr payload, q)"
    and "0 < NumOVEntries payload"
    and "GetOVNextEntry62 ops q 0 = (Inr nextEntry, q')"
    and "OVEntryNum nextEntry \<noteq> 0"
  shows "preExecuteTo2_66 ops = (NilNil, [Sent60 (Inr payload), Sent62 0 (Inr nextEntry)])"
  using assms by (simp add: preExecuteTo2_66_def ov_loop.simps [of ops _ 0])

theorem pre_execute_wrong_entry_number_witness:
  "preExecuteTo2_66
     (demo_requestor_ops\<lparr>GetOVNextEntry62 :=
        (\<lambda>q idx. (Inr \<lparr>OVEntryNum = 1, OVEntry = ''entry-1''\<rparr>, q + 1))\<rparr>)
   = (NilNil,
      [Sent60 (Inr \<lparr>OVHeader_bytes = ''header'', NumOVEntries = 2, HMac = ''hmac''\<rparr>),
       Sent62 0 (Inr \<lparr>OVEntryNum = 1, OVEntry = ''entry-1''\<rparr>)])"
proof -
  let ?ops = "demo_requestor_ops\<lparr>GetOVNextEntry62 :=
        (\<lambda>q idx. (Inr \<lparr>OVEntryNum = 1, OVEntry = ''entry-1''\<rparr>, q + 1))\<rparr>"
  have h1: "GetVoucher ?ops = Inr ()" by (simp add: demo_requestor_ops_def)
  have h2: "HelloDevice60 ?ops (NewTo2Requestor ?ops ())
      = (Inr \<lparr>OVHeader_bytes = ''header'', NumOVEntries = 2, HMac = ''hmac''\<rparr>, 1)"
    by (simp add: demo_requestor_ops_def)
  have h3: "0 < NumOVEntries \<lparr>OVHeader_bytes = ''header'', NumOVEntries = 2, HMac = ''hmac''\<rparr>"
    by simp
  have h4: "GetOVNextEntry62 ?ops 1 0 = (Inr \<lparr>OVEntryNum = 1, OVEntry = ''entry-1''\<rparr>, 2)"
    by simp
  have h5: "OVEntryNum \<lparr>OVEntryNum = 1, OVEntry = ''entry-1''\<rparr> \<noteq> 0" by simp
  from pre_execute_wrong_entry_number [OF h1 h2 h3 h4 h5] show ?thesis .
qed



section \<open>Fault injection\<close>

lemma force_test_simps [simp]:
  "CheckCmdTestingIsCompleted (force_test ops tid) = CheckCmdTestingIsCompleted ops"
  "CheckExpectedCmd (force_test ops tid) = CheckExpectedCmd ops"
  "GetLastTestID (force_test ops tid) = GetLastTestID ops"
  "CurrentTestIndex (force_test ops tid) = CurrentTestIndex ops"
  "PushFail (force_test ops tid) = PushFail ops"
  "PushSuccess (force_test ops tid) = PushSuccess ops"
  "CompleteCmdAndSetNext (force_test ops tid) = CompleteCmdAndSetNext ops"
  "GetNextTestID (force_test ops tid) l = (tid, snd (GetNextTestID ops l))"
  by (simp_all add: force_test_def)

lemma test_stuff_force:
  "tid \<noteq> NULL_TEST \<Longrightarrow> test_stuff (force_test ops tid) uf l cmd =
     (case test_stuff (force_test ops NULL_TEST) uf l cmd of
        None \<Rightarrow> None
      | Some (t, l') \<Rightarrow> Some (if draws_test ops l cmd then tid else NULL_TEST, l'))"
  by (cases l) (simp_all add: test_stuff_def draws_test_def Let_def split: prod.split)

lemma test_stuff_null:
  "test_stuff (force_test ops NULL_TEST) uf l cmd = Some (t, l') \<Longrightarrow> t = NULL_TEST"
  by (cases l) (auto simp: test_stuff_def Let_def split: prod.splits if_splits)

lemma sessions_Handle32ProveToRV: "sessions (Handle32ProveToRV ext ops env odb db) = db"
  by (simp add: Handle32ProveToRV_def respond_def panic_def refused_def Let_def
      split: helper.split option.split sum.split prod.split)

lemma sessions_Handle30HelloRV_force:
  "sessions (Handle30HelloRV ext (force_test ops tid) env odb db)
     = sessions (Handle30HelloRV ext (force_test ops NULL_TEST) env odb db)"
proof (cases "tid = NULL_TEST")
  case True
  then show ?thesis by simp
next
  case False
  then show ?thesis
    by (simp add: test_stuff_force Handle30HelloRV_def Let_def respond_def panic_def
        split: helper.split option.split sum.split prod.split)
qed

lemma sessions_DeviceServiceInfo68_force:
  "sessions (DeviceServiceInfo68 ext (force_test ops tid) env db)
     = sessions (DeviceServiceInfo68 ext (force_test ops NULL_TEST) env db)"
proof (cases "tid = NULL_TEST")
  case True
  then show ?thesis by simp
next
  case False
  then show ?thesis
    by (simp add: test_stuff_force DeviceServiceInfo68_def Let_def respond_def panic_def
        split: helper.split option.split prod.split)
qed

lemma Handle30HelloRV_bad_encoding:
  "Handle30HelloRV ext (force_test ops FIDO_LISTENER_DEVICE_30_BAD_ENCODING) env odb db
     = Handle30HelloRV ext (force_test ops NULL_TEST) env odb db
   \<or> Handle30HelloRV ext (force_test ops FIDO_LISTENER_DEVICE_30_BAD_ENCODING) env odb db
     = Handle30HelloRV
         (ext\<lparr>encode_HelloRVAck31 :=
                 (\<lambda>a. Conf_RandomCborBufferFuzzing ext (encode_HelloRVAck31 ext a))\<rparr>)
         (force_test ops NULL_TEST) env odb db"
  by (simp add: test_stuff_force Handle30HelloRV_def Let_def
      split: helper.split option.split sum.split prod.split)
     (auto dest: test_stuff_null)

lemma Handle32ProveToRV_bad_encoding:
  "Handle32ProveToRV ext (force_test ops FIDO_LISTENER_DEVICE_32_BAD_ENCODING) env odb db
     = Handle32ProveToRV ext (force_test ops NULL_TEST) env odb db
   \<or> Handle32ProveToRV ext (force_test ops FIDO_LISTENER_DEVICE_32_BAD_ENCODING) env odb db
     = Handle32ProveToRV
         (ext\<lparr>encode_CoseSignature :=
                 (\<lambda>a. Conf_RandomCborBufferFuzzing ext (encode_CoseSignature ext a))\<rparr>)
         (force_test ops NULL_TEST) env odb db"
  by (simp add: test_stuff_force Handle32ProveToRV_def Let_def
      split: helper.split option.split sum.split prod.split)
     (auto dest: test_stuff_null)

lemma Handle32ProveToRV_bad_to1d:
  "Handle32ProveToRV ext (force_test ops FIDO_LISTENER_DEVICE_32_BAD_TO1D) env odb db
     = Handle32ProveToRV ext (force_test ops NULL_TEST) env odb db
   \<or> Handle32ProveToRV ext (force_test ops FIDO_LISTENER_DEVICE_32_BAD_TO1D) env odb db
     = Handle32ProveToRV
         (ext\<lparr>encode_CoseSignature :=
                 (\<lambda>a. encode_CoseSignature ext (Conf_Fuzz_CoseSignature ext a))\<rparr>)
         (force_test ops NULL_TEST) env odb db"
  by (simp add: test_stuff_force Handle32ProveToRV_def Let_def
      split: helper.split option.split sum.split prod.split)
     (auto dest: test_stuff_null)

text \<open>
  C3. Take any step of the three handlers and let the conformance listener draw the
  test identifier \<open>tid\<close> where it would draw one (\<open>force_test ops tid\<close>). The session
  store after the step is the store after the same step with no test active
  (\<open>NULL_TEST\<close>), whatever \<open>tid\<close> is. With a fault the whole outcome (responses, store,
  panic) is either that of the step with no test active, or that of the step with no
  test active in which the bytes of the encoded answer went through the fuzzer
  (\<^verbatim>\<open>Conf_RandomCborBufferFuzzing\<close> after the encoder for the two bad-encoding tests,
  \<^verbatim>\<open>Conf_Fuzz_CoseSignature\<close> before it for the bad redirect): the fault changes
  nothing but the body sent.
\<close>

theorem fault_injection_is_output_only:
  "sessions (Handle30HelloRV ext (force_test ops tid) env ownersignDB db)
     = sessions (Handle30HelloRV ext (force_test ops NULL_TEST) env ownersignDB db)
   \<and> sessions (Handle32ProveToRV ext (force_test ops tid) env ownersignDB db)
     = sessions (Handle32ProveToRV ext (force_test ops NULL_TEST) env ownersignDB db)
   \<and> sessions (DeviceServiceInfo68 ext2 (force_test ops tid) env2 db)
     = sessions (DeviceServiceInfo68 ext2 (force_test ops NULL_TEST) env2 db)
   \<and> (Handle30HelloRV ext (force_test ops FIDO_LISTENER_DEVICE_30_BAD_ENCODING) env ownersignDB db
         = Handle30HelloRV ext (force_test ops NULL_TEST) env ownersignDB db
       \<or> Handle30HelloRV ext (force_test ops FIDO_LISTENER_DEVICE_30_BAD_ENCODING) env ownersignDB db
         = Handle30HelloRV
             (ext\<lparr>encode_HelloRVAck31 :=
                     (\<lambda>a. Conf_RandomCborBufferFuzzing ext (encode_HelloRVAck31 ext a))\<rparr>)
             (force_test ops NULL_TEST) env ownersignDB db)
   \<and> (Handle32ProveToRV ext (force_test ops FIDO_LISTENER_DEVICE_32_BAD_ENCODING) env ownersignDB db
         = Handle32ProveToRV ext (force_test ops NULL_TEST) env ownersignDB db
       \<or> Handle32ProveToRV ext (force_test ops FIDO_LISTENER_DEVICE_32_BAD_ENCODING) env ownersignDB db
         = Handle32ProveToRV
             (ext\<lparr>encode_CoseSignature :=
                     (\<lambda>a. Conf_RandomCborBufferFuzzing ext (encode_CoseSignature ext a))\<rparr>)
             (force_test ops NULL_TEST) env ownersignDB db)
   \<and> (Handle32ProveToRV ext (force_test ops FIDO_LISTENER_DEVICE_32_BAD_TO1D) env ownersignDB db
         = Handle32ProveToRV ext (force_test ops NULL_TEST) env ownersignDB db
       \<or> Handle32ProveToRV ext (force_test ops FIDO_LISTENER_DEVICE_32_BAD_TO1D) env ownersignDB db
         = Handle32ProveToRV
             (ext\<lparr>encode_CoseSignature :=
                     (\<lambda>a. encode_CoseSignature ext (Conf_Fuzz_CoseSignature ext a))\<rparr>)
             (force_test ops NULL_TEST) env ownersignDB db)"
  using sessions_Handle30HelloRV_force [of ext ops tid env ownersignDB db]
    sessions_DeviceServiceInfo68_force [of ext2 ops tid env2 db]
    Handle30HelloRV_bad_encoding [of ext ops env ownersignDB db]
    Handle32ProveToRV_bad_encoding [of ext ops env ownersignDB db]
    Handle32ProveToRV_bad_to1d [of ext ops env ownersignDB db]
  by (simp only: sessions_Handle32ProveToRV simp_thms)

end
